theory Spec2Isabelle
  imports Complex_Main "HOL-Library.AList" "HOL-Library.Monad_Syntax"
begin

section \<open>Python strings and numbers\<close>

text \<open>
  Python's unbounded \<open>int\<close> is \<open>int\<close>, \<open>float\<close> is \<open>real\<close> (finite values only: the
  special values \<open>nan\<close> and \<open>inf\<close> are outside the model), \<open>str\<close> is \<open>string\<close>, and
  \<open>bytes\<close> is a list of characters (one \<open>char\<close> is one byte).
\<close>

type_synonym bytes = "char list"

text \<open>\<open>str(n)\<close> for an integer: the decimal digits, with a minus sign below zero.\<close>

definition digit_char :: "nat \<Rightarrow> char" where
  "digit_char d = ''0123456789'' ! d"

function str_nat :: "nat \<Rightarrow> string" where
  "str_nat n = (if n < 10 then [digit_char n] else str_nat (n div 10) @ [digit_char (n mod 10)])"
  by pat_completeness auto
termination
  by (relation "measure (\<lambda>n. n)") auto

declare str_nat.simps [simp del]

definition str_int :: "int \<Rightarrow> string" where
  "str_int i = (if i < 0 then CHR ''-'' # str_nat (nat (- i)) else str_nat (nat i))"

text \<open>\<open>needle in haystack\<close> for two strings: some suffix of the haystack starts with the needle.\<close>

fun str_in :: "string \<Rightarrow> string \<Rightarrow> bool" where
  "str_in needle [] = (needle = [])"
| "str_in needle (c # cs) = (take (length needle) (c # cs) = needle \<or> str_in needle cs)"

text \<open>
  \<open>s.replace(old, new)\<close>: every non-overlapping occurrence of \<open>old\<close>, scanning from the
  left, is replaced. With an empty \<open>old\<close> Python puts \<open>new\<close> before every character and at
  the end.
\<close>

function str_replace :: "string \<Rightarrow> string \<Rightarrow> string \<Rightarrow> string" where
  "str_replace old new s =
     (if old = [] then new @ concat (map (\<lambda>c. c # new) s)
      else if s = [] then []
      else if take (length old) s = old then new @ str_replace old new (drop (length old) s)
      else hd s # str_replace old new (tl s))"
  by pat_completeness auto
termination
  by (relation "measure (\<lambda>(old, new, s). length s)") (auto simp: neq_Nil_conv)

declare str_replace.simps [simp del]

section \<open>client.py: the file-size matrix\<close>

text \<open>
  The body of the module-level \<open>while\<close> loop picks the label by magnitude
  (client.py, lines 15 to 22).
\<close>

definition size_label :: "int \<Rightarrow> string" where
  "size_label size_bytes =
     (if size_bytes < 1024 then str_int size_bytes @ ''B''
      else if size_bytes < 1024 * 1024 then str_int (size_bytes div 1024) @ ''KB''
      else if size_bytes < 1024 * 1024 * 1024 then str_int (size_bytes div (1024 * 1024)) @ ''MB''
      else str_int (size_bytes div (1024 * 1024 * 1024)) @ ''GB'')"

text \<open>
  The loop itself (lines 13 to 24). Started at a size below one it would double forever, so
  it is a partial function: \<open>None\<close> is "does not return".
\<close>

partial_function (option) file_sizes_loop :: "int \<Rightarrow> (string \<times> int) list \<Rightarrow> (string \<times> int) list option" where
  "file_sizes_loop size_bytes acc =
     (if size_bytes \<le> 1024 * 1024 * 1024
      then file_sizes_loop (size_bytes * 2) (acc @ [(size_label size_bytes, size_bytes)])
      else Some acc)"

definition FILE_SIZES :: "(string \<times> int) list option" where
  "FILE_SIZES = file_sizes_loop 1024 []"

text \<open>
  The label as the specification words it: the size divided (integer division) by the
  largest power-of-1024 unit not exceeding it, followed by that unit's suffix.
\<close>

definition units :: "(int \<times> string) list" where
  "units = [(1, ''B''), (1024, ''KB''), (1024 ^ 2, ''MB''), (1024 ^ 3, ''GB'')]"

definition spec_label :: "int \<Rightarrow> string" where
  "spec_label n =
     (let (u, suffix) = last (filter (\<lambda>(u, suffix). u \<le> n) units)
      in str_int (n div u) @ suffix)"

section \<open>models.py: the data model\<close>

text \<open>
  Each pydantic class is a record with the declared fields in the declared order. A
  \<open>dict[str, V]\<close> is an association list in insertion order, written with
  \<open>AList.update\<close> (an existing key keeps its place, a new key goes to the end) and read
  with \<open>map_of\<close>; a Python dict never holds a key twice, which is \<open>distinct (map fst d)\<close>.
\<close>

record ServerResponse =
  endpoint :: string
  file_size_bytes :: int
  file_size_mb :: real
  handler_duration_seconds :: real
  memory_start_mb :: real
  memory_end_mb :: real
  memory_delta_mb :: real

record EndpointMetrics =
  endpoint :: string
  file_size_bytes :: int
  file_size_mb :: real
  handler_duration_seconds :: real
  total_duration_seconds :: real
  total_throughput_mbps :: real
  total_memory_delta_mb :: real
  memory_start_mb :: real
  memory_end_mb :: real
  memory_delta_mb :: real
  client_duration :: real

record FileSizeTest =
  file_size_label :: string
  file_size_bytes :: int
  results :: "(string \<times> EndpointMetrics) list"

record datetime =
  year :: nat
  month :: nat
  day :: nat
  hour :: nat
  minute :: nat
  second :: nat
  microsecond :: nat

record BenchmarkRun =
  timestamp :: datetime
  test_files :: "FileSizeTest list"
  endpoints :: "string list"
  summary :: "(string \<times> (string \<times> real) list) list"

record BenchmarkHistory =
  runs :: "BenchmarkRun list"

definition add_run :: "BenchmarkHistory \<Rightarrow> BenchmarkRun \<Rightarrow> BenchmarkHistory" where
  "add_run self run = self\<lparr>runs := runs self @ [run]\<rparr>"

definition get_latest :: "BenchmarkHistory \<Rightarrow> BenchmarkRun option" where
  "get_latest self = (if runs self \<noteq> [] then Some (last (runs self)) else None)"

text \<open>The key-uniqueness of every dict inside a value, as Python's dicts have it.\<close>

definition dict_ok :: "(string \<times> 'v) list \<Rightarrow> bool" where
  "dict_ok d = distinct (map fst d)"

definition test_ok :: "FileSizeTest \<Rightarrow> bool" where
  "test_ok t = dict_ok (results t)"

definition run_ok :: "BenchmarkRun \<Rightarrow> bool" where
  "run_ok r = (list_all test_ok (test_files r) \<and> dict_ok (summary r)
               \<and> list_all (\<lambda>kv. dict_ok (snd kv)) (summary r))"

section \<open>JSON documents and the pydantic codec\<close>

text \<open>
  A JSON document is kept as the tree of values it denotes: a number literal by the number
  (\<open>JInt\<close> without a fraction or exponent, \<open>JFloat\<close> otherwise), an ISO-8601 date-time
  string by the \<open>datetime\<close> it denotes (\<open>JTime\<close>), any other string by its text, an object
  by its members in document order. What \<open>model_dump_json\<close> writes and what
  \<open>model_validate_json\<close> accepts follow from the field declarations of models.py: one
  member per field, under the field's name, in declaration order; on reading, every field
  without a default is required, a float field also takes an integer literal, unknown
  members are ignored, and of two members with the same name the later one counts. A
  failed validation (\<open>ValidationError\<close>) is \<open>None\<close>.
\<close>

datatype json =
    JNull
  | JBool bool
  | JInt int
  | JFloat real
  | JStr string
  | JTime datetime
  | JArr "json list"
  | JObj "(string \<times> json) list"

definition get_field :: "string \<Rightarrow> (string \<times> json) list \<Rightarrow> json option" where
  "get_field k members = map_of (rev members) k"

fun as_str :: "json \<Rightarrow> string option" where
  "as_str (JStr s) = Some s"
| "as_str _ = None"

fun as_int :: "json \<Rightarrow> int option" where
  "as_int (JInt i) = Some i"
| "as_int _ = None"

fun as_float :: "json \<Rightarrow> real option" where
  "as_float (JFloat x) = Some x"
| "as_float (JInt i) = Some (real_of_int i)"
| "as_float _ = None"

fun as_datetime :: "json \<Rightarrow> datetime option" where
  "as_datetime (JTime t) = Some t"
| "as_datetime _ = None"

fun as_list :: "(json \<Rightarrow> 'a option) \<Rightarrow> json \<Rightarrow> 'a list option" where
  "as_list dec (JArr js) = those (map dec js)"
| "as_list dec _ = None"

text \<open>Reading an object into a dict: members in order, each stored as \<open>d[k] = v\<close>.\<close>

fun dict_of_members :: "(json \<Rightarrow> 'v option) \<Rightarrow> (string \<times> json) list \<Rightarrow> (string \<times> 'v) list \<Rightarrow> (string \<times> 'v) list option" where
  "dict_of_members dec [] d = Some d"
| "dict_of_members dec ((k, j) # members) d =
     (case dec j of None \<Rightarrow> None | Some v \<Rightarrow> dict_of_members dec members (AList.update k v d))"

fun as_dict :: "(json \<Rightarrow> 'v option) \<Rightarrow> json \<Rightarrow> (string \<times> 'v) list option" where
  "as_dict dec (JObj members) = dict_of_members dec members []"
| "as_dict dec _ = None"

definition dict_to_json :: "('v \<Rightarrow> json) \<Rightarrow> (string \<times> 'v) list \<Rightarrow> json" where
  "dict_to_json enc d = JObj (map (\<lambda>kv. (fst kv, enc (snd kv))) d)"

definition ServerResponse_to_json :: "ServerResponse \<Rightarrow> json" where
  "ServerResponse_to_json r = JObj
     [(''endpoint'', JStr (ServerResponse.endpoint r)),
      (''file_size_bytes'', JInt (ServerResponse.file_size_bytes r)),
      (''file_size_mb'', JFloat (ServerResponse.file_size_mb r)),
      (''handler_duration_seconds'', JFloat (ServerResponse.handler_duration_seconds r)),
      (''memory_start_mb'', JFloat (ServerResponse.memory_start_mb r)),
      (''memory_end_mb'', JFloat (ServerResponse.memory_end_mb r)),
      (''memory_delta_mb'', JFloat (ServerResponse.memory_delta_mb r))]"

definition ServerResponse_of_json :: "json \<Rightarrow> ServerResponse option" where
  "ServerResponse_of_json j = (case j of
     JObj ms \<Rightarrow> do {
       e \<leftarrow> get_field ''endpoint'' ms \<bind> as_str;
       b \<leftarrow> get_field ''file_size_bytes'' ms \<bind> as_int;
       mb \<leftarrow> get_field ''file_size_mb'' ms \<bind> as_float;
       hs \<leftarrow> get_field ''handler_duration_seconds'' ms \<bind> as_float;
       m0 \<leftarrow> get_field ''memory_start_mb'' ms \<bind> as_float;
       m1 \<leftarrow> get_field ''memory_end_mb'' ms \<bind> as_float;
       md \<leftarrow> get_field ''memory_delta_mb'' ms \<bind> as_float;
       Some \<lparr>ServerResponse.endpoint = e, file_size_bytes = b, file_size_mb = mb,
              handler_duration_seconds = hs, memory_start_mb = m0, memory_end_mb = m1,
              memory_delta_mb = md\<rparr>
     }
   | _ \<Rightarrow> None)"

definition EndpointMetrics_to_json :: "EndpointMetrics \<Rightarrow> json" where
  "EndpointMetrics_to_json m = JObj
     [(''endpoint'', JStr (EndpointMetrics.endpoint m)),
      (''file_size_bytes'', JInt (EndpointMetrics.file_size_bytes m)),
      (''file_size_mb'', JFloat (EndpointMetrics.file_size_mb m)),
      (''handler_duration_seconds'', JFloat (EndpointMetrics.handler_duration_seconds m)),
      (''total_duration_seconds'', JFloat (total_duration_seconds m)),
      (''total_throughput_mbps'', JFloat (total_throughput_mbps m)),
      (''total_memory_delta_mb'', JFloat (total_memory_delta_mb m)),
      (''memory_start_mb'', JFloat (EndpointMetrics.memory_start_mb m)),
      (''memory_end_mb'', JFloat (EndpointMetrics.memory_end_mb m)),
      (''memory_delta_mb'', JFloat (EndpointMetrics.memory_delta_mb m)),
      (''client_duration'', JFloat (client_duration m))]"

definition EndpointMetrics_of_json :: "json \<Rightarrow> EndpointMetrics option" where
  "EndpointMetrics_of_json j = (case j of
     JObj ms \<Rightarrow> do {
       e \<leftarrow> get_field ''endpoint'' ms \<bind> as_str;
       b \<leftarrow> get_field ''file_size_bytes'' ms \<bind> as_int;
       mb \<leftarrow> get_field ''file_size_mb'' ms \<bind> as_float;
       hs \<leftarrow> get_field ''handler_duration_seconds'' ms \<bind> as_float;
       td \<leftarrow> get_field ''total_duration_seconds'' ms \<bind> as_float;
       tp \<leftarrow> get_field ''total_throughput_mbps'' ms \<bind> as_float;
       tm \<leftarrow> get_field ''total_memory_delta_mb'' ms \<bind> as_float;
       m0 \<leftarrow> get_field ''memory_start_mb'' ms \<bind> as_float;
       m1 \<leftarrow> get_field ''memory_end_mb'' ms \<bind> as_float;
       md \<leftarrow> get_field ''memory_delta_mb'' ms \<bind> as_float;
       cd \<leftarrow> get_field ''client_duration'' ms \<bind> as_float;
       Some \<lparr>EndpointMetrics.endpoint = e, file_size_bytes = b, file_size_mb = mb,
              handler_duration_seconds = hs, total_duration_seconds = td,
              total_throughput_mbps = tp, total_memory_delta_mb = tm, memory_start_mb = m0,
              memory_end_mb = m1, memory_delta_mb = md, client_duration = cd\<rparr>
     }
   | _ \<Rightarrow> None)"

definition FileSizeTest_to_json :: "FileSizeTest \<Rightarrow> json" where
  "FileSizeTest_to_json t = JObj
     [(''file_size_label'', JStr (file_size_label t)),
      (''file_size_bytes'', JInt (FileSizeTest.file_size_bytes t)),
      (''results'', dict_to_json EndpointMetrics_to_json (results t))]"

definition FileSizeTest_of_json :: "json \<Rightarrow> FileSizeTest option" where
  "FileSizeTest_of_json j = (case j of
     JObj ms \<Rightarrow> do {
       l \<leftarrow> get_field ''file_size_label'' ms \<bind> as_str;
       b \<leftarrow> get_field ''file_size_bytes'' ms \<bind> as_int;
       rs \<leftarrow> get_field ''results'' ms \<bind> as_dict EndpointMetrics_of_json;
       Some \<lparr>file_size_label = l, file_size_bytes = b, results = rs\<rparr>
     }
   | _ \<Rightarrow> None)"

definition BenchmarkRun_to_json :: "BenchmarkRun \<Rightarrow> json" where
  "BenchmarkRun_to_json r = JObj
     [(''timestamp'', JTime (timestamp r)),
      (''test_files'', JArr (map FileSizeTest_to_json (test_files r))),
      (''endpoints'', JArr (map JStr (endpoints r))),
      (''summary'', dict_to_json (dict_to_json JFloat) (summary r))]"

text \<open>\<open>summary\<close> is the one field with a default (\<open>default_factory=dict\<close>).\<close>

definition BenchmarkRun_of_json :: "json \<Rightarrow> BenchmarkRun option" where
  "BenchmarkRun_of_json j = (case j of
     JObj ms \<Rightarrow> do {
       ts \<leftarrow> get_field ''timestamp'' ms \<bind> as_datetime;
       tf \<leftarrow> get_field ''test_files'' ms \<bind> as_list FileSizeTest_of_json;
       es \<leftarrow> get_field ''endpoints'' ms \<bind> as_list as_str;
       sm \<leftarrow> (case get_field ''summary'' ms of
                None \<Rightarrow> Some []
              | Some s \<Rightarrow> as_dict (as_dict as_float) s);
       Some \<lparr>timestamp = ts, test_files = tf, endpoints = es, summary = sm\<rparr>
     }
   | _ \<Rightarrow> None)"

definition BenchmarkHistory_to_json :: "BenchmarkHistory \<Rightarrow> json" where
  "BenchmarkHistory_to_json h = JObj [(''runs'', JArr (map BenchmarkRun_to_json (runs h)))]"

definition BenchmarkHistory_of_json :: "json \<Rightarrow> BenchmarkHistory option" where
  "BenchmarkHistory_of_json j = (case j of
     JObj ms \<Rightarrow> do {
       rs \<leftarrow> get_field ''runs'' ms \<bind> as_list BenchmarkRun_of_json;
       Some \<lparr>runs = rs\<rparr>
     }
   | _ \<Rightarrow> None)"

section \<open>server.py: the interceptor and the five handlers\<close>

text \<open>
  The process the server runs in, as the code can observe it: the monotonic clock that
  \<open>time.perf_counter()\<close> reads and the resident set size that psutil reports, in bytes.
  Both readings leave the process as it is.
\<close>

record proc =
  now :: real
  rss :: int

definition perf_counter :: "proc \<Rightarrow> real" where
  "perf_counter w = now w"

definition get_memory_usage_mb :: "proc \<Rightarrow> real" where
  "get_memory_usage_mb w = real_of_int (rss w) / 1024 / 1024"

text \<open>
  What happens to the process between two readings is not the server's code: the
  framework's work before it calls the handler (routing, parsing the form, buffering the
  body), the evaluation of \<open>len(file)\<close>, every read of the body (given the number of bytes
  it returned), and the framework's work between the handler's return and the interceptor's
  second reading. These are parameters of the model.
\<close>

record framework =
  before_handler :: "proc \<Rightarrow> proc"
  during_len :: "proc \<Rightarrow> proc"
  during_read :: "nat \<Rightarrow> proc \<Rightarrow> proc"
  after_handler :: "proc \<Rightarrow> proc"

text \<open>
  A request as the framework hands it to a handler: the content of the form's file part
  (what a \<open>File()\<close> parameter receives as \<open>bytes\<close> and an \<open>UploadFile\<close> wraps as a file
  object positioned at 0) and the chunks that \<open>request.stream()\<close> yields.
\<close>

record request =
  path :: string
  form_file :: bytes
  stream :: "bytes list"

text \<open>
  The two context variables. The interceptor sets both before any handler runs, so a
  handler's \<open>get()\<close> finds them.
\<close>

record request_ctx =
  request_start_time :: real
  request_start_memory :: real

definition CHUNK_SIZE :: nat where
  "CHUNK_SIZE = 256 * 1024"

definition upload_sync_file :: "request_ctx \<Rightarrow> framework \<Rightarrow> request \<Rightarrow> proc \<Rightarrow> ServerResponse \<times> proc" where
  "upload_sync_file ctx fw req w =
     (let start_memory = request_start_memory ctx;
          handler_start_time = perf_counter w;
          file_size = int (length (form_file req));
          w = during_len fw w;
          handler_end_time = perf_counter w;
          end_memory = get_memory_usage_mb w;
          handler_duration = handler_end_time - handler_start_time
      in (\<lparr>ServerResponse.endpoint = ''sync-file'',
            file_size_bytes = file_size,
            file_size_mb = real_of_int file_size / 1024 / 1024,
            handler_duration_seconds = handler_duration,
            memory_start_mb = start_memory,
            memory_end_mb = end_memory,
            memory_delta_mb = end_memory - start_memory\<rparr>, w))"

definition upload_async_file :: "request_ctx \<Rightarrow> framework \<Rightarrow> request \<Rightarrow> proc \<Rightarrow> ServerResponse \<times> proc" where
  "upload_async_file ctx fw req w =
     (let start_memory = request_start_memory ctx;
          handler_start_time = perf_counter w;
          file_size = int (length (form_file req));
          w = during_len fw w;
          handler_end_time = perf_counter w;
          end_memory = get_memory_usage_mb w;
          handler_duration = handler_end_time - handler_start_time
      in (\<lparr>ServerResponse.endpoint = ''async-file'',
            file_size_bytes = file_size,
            file_size_mb = real_of_int file_size / 1024 / 1024,
            handler_duration_seconds = handler_duration,
            memory_start_mb = start_memory,
            memory_end_mb = end_memory,
            memory_delta_mb = end_memory - start_memory\<rparr>, w))"

text \<open>
  \<open>while chunk := file.file.read(CHUNK_SIZE): file_size += len(chunk)\<close>. The file object is
  the bytes not yet read; a read returns at most \<open>CHUNK_SIZE\<close> of them, and the loop ends at
  the first empty read.
\<close>

function read_chunks :: "framework \<Rightarrow> bytes \<Rightarrow> int \<Rightarrow> proc \<Rightarrow> int \<times> proc" where
  "read_chunks fw unread file_size w =
     (if take CHUNK_SIZE unread \<noteq> []
      then read_chunks fw (drop CHUNK_SIZE unread)
             (file_size + int (length (take CHUNK_SIZE unread)))
             (during_read fw (length (take CHUNK_SIZE unread)) w)
      else (file_size, during_read fw 0 w))"
  by pat_completeness auto
termination
  by (relation "measure (\<lambda>(fw, unread, file_size, w). length unread)") (auto simp: CHUNK_SIZE_def)

declare read_chunks.simps [simp del]

definition upload_sync_uploadfile :: "request_ctx \<Rightarrow> framework \<Rightarrow> request \<Rightarrow> proc \<Rightarrow> ServerResponse \<times> proc" where
  "upload_sync_uploadfile ctx fw req w =
     (let start_memory = request_start_memory ctx;
          handler_start_time = perf_counter w;
          (file_size, w) = read_chunks fw (form_file req) 0 w;
          handler_end_time = perf_counter w;
          end_memory = get_memory_usage_mb w;
          handler_duration = handler_end_time - handler_start_time
      in (\<lparr>ServerResponse.endpoint = ''sync-uploadfile'',
            file_size_bytes = file_size,
            file_size_mb = real_of_int file_size / 1024 / 1024,
            handler_duration_seconds = handler_duration,
            memory_start_mb = start_memory,
            memory_end_mb = end_memory,
            memory_delta_mb = end_memory - start_memory\<rparr>, w))"

definition upload_async_uploadfile :: "request_ctx \<Rightarrow> framework \<Rightarrow> request \<Rightarrow> proc \<Rightarrow> ServerResponse \<times> proc" where
  "upload_async_uploadfile ctx fw req w =
     (let start_memory = request_start_memory ctx;
          handler_start_time = perf_counter w;
          (file_size, w) = read_chunks fw (form_file req) 0 w;
          handler_end_time = perf_counter w;
          end_memory = get_memory_usage_mb w;
          handler_duration = handler_end_time - handler_start_time
      in (\<lparr>ServerResponse.endpoint = ''async-uploadfile'',
            file_size_bytes = file_size,
            file_size_mb = real_of_int file_size / 1024 / 1024,
            handler_duration_seconds = handler_duration,
            memory_start_mb = start_memory,
            memory_end_mb = end_memory,
            memory_delta_mb = end_memory - start_memory\<rparr>, w))"

text \<open>\<open>async for chunk in request.stream(): file_size += len(chunk)\<close>.\<close>

fun consume_stream :: "framework \<Rightarrow> bytes list \<Rightarrow> int \<Rightarrow> proc \<Rightarrow> int \<times> proc" where
  "consume_stream fw [] file_size w = (file_size, w)"
| "consume_stream fw (chunk # chunks) file_size w =
     consume_stream fw chunks (file_size + int (length chunk)) (during_read fw (length chunk) w)"

definition upload_async_stream :: "request_ctx \<Rightarrow> framework \<Rightarrow> request \<Rightarrow> proc \<Rightarrow> ServerResponse \<times> proc" where
  "upload_async_stream ctx fw req w =
     (let start_memory = request_start_memory ctx;
          handler_start_time = perf_counter w;
          (file_size, w) = consume_stream fw (stream req) 0 w;
          handler_end_time = perf_counter w;
          end_memory = get_memory_usage_mb w;
          handler_duration = handler_end_time - handler_start_time
      in (\<lparr>ServerResponse.endpoint = ''async-stream'',
            file_size_bytes = file_size,
            file_size_mb = real_of_int file_size / 1024 / 1024,
            handler_duration_seconds = handler_duration,
            memory_start_mb = start_memory,
            memory_end_mb = end_memory,
            memory_delta_mb = end_memory - start_memory\<rparr>, w))"

text \<open>The route table that the five \<open>@app.post\<close> decorators build.\<close>

definition app :: "string \<Rightarrow> (request_ctx \<Rightarrow> framework \<Rightarrow> request \<Rightarrow> proc \<Rightarrow> ServerResponse \<times> proc) option" where
  "app p =
     (if p = ''/upload/sync-file'' then Some upload_sync_file
      else if p = ''/upload/async-file'' then Some upload_async_file
      else if p = ''/upload/sync-uploadfile'' then Some upload_sync_uploadfile
      else if p = ''/upload/async-uploadfile'' then Some upload_async_uploadfile
      else if p = ''/upload/async-stream'' then Some upload_async_stream
      else None)"

text \<open>
  An HTTP response: status, body and headers. A header's text is kept as what \<open>float()\<close>
  makes of it: \<open>FloatText x\<close> is the text of the float \<open>x\<close> (what \<open>str(x)\<close> writes, and
  \<open>float\<close> reads back as \<open>x\<close>), \<open>NonNumericText\<close> is any text that \<open>float()\<close> rejects with
  \<open>ValueError\<close>, such as \<open>abc\<close>.
\<close>

datatype header_text = FloatText real | NonNumericText

record http_response =
  status_code :: int
  body :: json
  headers :: "string \<rightharpoonup> header_text"

text \<open>
  \<open>call_next\<close>: the framework routes the request, calls the handler and serialises the
  model it returns into a 200 response. A path without a route gets the framework's 404.
\<close>

definition call_next :: "framework \<Rightarrow> request_ctx \<Rightarrow> request \<Rightarrow> proc \<Rightarrow> http_response \<times> proc" where
  "call_next fw ctx req w =
     (let w = before_handler fw w in
      case app (path req) of
        None \<Rightarrow>
          (\<lparr>status_code = 404, body = JObj [(''detail'', JStr ''Not Found'')], headers = Map.empty\<rparr>,
           after_handler fw w)
      | Some handler \<Rightarrow>
          (let (result, w) = handler ctx fw req w
           in (\<lparr>status_code = 200, body = ServerResponse_to_json result, headers = Map.empty\<rparr>,
               after_handler fw w)))"

text \<open>\<open>TimingMiddleware.dispatch\<close>.\<close>

definition dispatch :: "framework \<Rightarrow> request \<Rightarrow> proc \<Rightarrow> http_response \<times> proc" where
  "dispatch fw req w =
     (let start_time = perf_counter w;
          start_memory = get_memory_usage_mb w;
          ctx = \<lparr>request_start_time = start_time, request_start_memory = start_memory\<rparr>;
          (response, w) = call_next fw ctx req w;
          end_time = perf_counter w;
          end_memory = get_memory_usage_mb w;
          total_duration = end_time - start_time
      in (response\<lparr>headers := (headers response)
            (''X-Total-Duration'' \<mapsto> FloatText total_duration,
             ''X-Total-Memory-Delta'' \<mapsto> FloatText (end_memory - start_memory))\<rparr>, w))"

section \<open>client.py: one trial\<close>

text \<open>
  The exceptions a trial can meet, all of them subclasses of \<open>Exception\<close>: \<open>open\<close> fails
  (\<open>OSError\<close>), the transport fails or the 300 second timeout expires (httpx's
  \<open>TransportError\<close>, of which \<open>TimeoutException\<close> is a subclass), the body does not
  validate as a \<open>ServerResponse\<close> (\<open>ValidationError\<close>), \<open>float()\<close> rejects a header
  (\<open>ValueError\<close>), a division by zero (\<open>ZeroDivisionError\<close>).
\<close>

datatype exn = OSError | TransportError | TimeoutException | ValidationError | ValueError
  | ZeroDivisionError

definition ENDPOINTS :: "string list" where
  "ENDPOINTS =
     [''/upload/sync-file'',
      ''/upload/async-file'',
      ''/upload/sync-uploadfile'',
      ''/upload/async-uploadfile'',
      ''/upload/async-stream'']"

definition BASE_URL :: string where
  "BASE_URL = ''http://localhost:8000''"

definition TEST_FILES_DIR :: string where
  "TEST_FILES_DIR = ''test_files''"

text \<open>\<open>Path.name\<close>, the last component of a path, and \<open>dir / name\<close>.\<close>

definition path_name :: "string \<Rightarrow> string" where
  "path_name p = rev (takeWhile (\<lambda>c. c \<noteq> CHR ''/'') (rev p))"

definition path_join :: "string \<Rightarrow> string \<Rightarrow> string" where
  "path_join d name = d @ ''/'' @ name"

text \<open>
  What \<open>client.post\<close> is given: either \<open>content=\<close>, a bytes object held in memory, or
  \<open>files=\<close>, the form fields, each a name with a (file name, open file object, content
  type) triple. An open file object is the handle; its bytes are still on disk.
\<close>

datatype file_object = OpenFile string

datatype post_body =
    Content bytes
  | Files "(string \<times> string \<times> file_object \<times> string) list"

record http_request =
  url :: string
  payload :: post_body

text \<open>
  What a trial meets outside the client: the file system (path to content), the answer of
  the network and server to the request (a response, or the exception that \<open>post\<close>
  raises), and the two readings of the client's clock.
\<close>

record client_env =
  files :: "string \<rightharpoonup> bytes"
  post :: "http_request \<Rightarrow> exn + http_response"
  clock_before :: real
  clock_after :: real

text \<open>Lines 73 to 79 of \<open>upload_file\<close>: the request, chosen by the endpoint's name.\<close>

definition upload_request :: "string \<Rightarrow> string \<Rightarrow> bytes \<Rightarrow> http_request" where
  "upload_request endp filepath on_disk =
     (let f = OpenFile filepath
      in if str_in ''stream'' endp
         then \<lparr>url = BASE_URL @ endp, payload = Content on_disk\<rparr>
         else \<lparr>url = BASE_URL @ endp,
               payload = Files [(''file'', (path_name filepath, f, ''application/octet-stream''))]\<rparr>)"

text \<open>\<open>float(response.headers.get(name, 0))\<close>.\<close>

definition header_float :: "(string \<rightharpoonup> header_text) \<Rightarrow> string \<Rightarrow> exn + real" where
  "header_float hs name =
     (case hs name of
        None \<Rightarrow> Inr 0
      | Some (FloatText x) \<Rightarrow> Inr x
      | Some NonNumericText \<Rightarrow> Inl ValueError)"

text \<open>
  The dict that \<open>upload_file\<close> returns has one of two shapes: with the key \<open>error\<close>, or with
  the keys \<open>server_response\<close>, \<open>client_duration\<close>, \<open>total_duration\<close> and
  \<open>total_memory_delta\<close>.
\<close>

datatype upload_result =
    ErrorResult string real
  | OkResult ServerResponse real real real

definition upload_file :: "client_env \<Rightarrow> string \<Rightarrow> string \<Rightarrow> exn + upload_result" where
  "upload_file env endp filepath =
     (let start_time = clock_before env
      in case files env filepath of
           None \<Rightarrow> Inl OSError
         | Some on_disk \<Rightarrow>
            (case post env (upload_request endp filepath on_disk) of
               Inl e \<Rightarrow> Inl e
             | Inr response \<Rightarrow>
                (let end_time = clock_after env;
                     client_duration = end_time - start_time
                 in if status_code response \<noteq> 200
                    then Inr (ErrorResult (''HTTP '' @ str_int (status_code response)) client_duration)
                    else (case ServerResponse_of_json (body response) of
                            None \<Rightarrow> Inl ValidationError
                          | Some server_data \<Rightarrow>
                             (case header_float (headers response) ''X-Total-Duration'' of
                                Inl e \<Rightarrow> Inl e
                              | Inr total_duration \<Rightarrow>
                                 (case header_float (headers response) ''X-Total-Memory-Delta'' of
                                    Inl e \<Rightarrow> Inl e
                                  | Inr total_memory_delta \<Rightarrow>
                                     Inr (OkResult server_data client_duration total_duration
                                            total_memory_delta)))))))"

section \<open>client.py: the orchestrator\<close>

text \<open>Float division raises on a zero divisor.\<close>

definition truediv :: "real \<Rightarrow> real \<Rightarrow> exn + real" where
  "truediv a b = (if b = 0 then Inl ZeroDivisionError else Inr (a / b))"

text \<open>\<open>server_response.file_size_mb / total_duration if total_duration > 0 else 0\<close>.\<close>

definition throughput :: "real \<Rightarrow> real \<Rightarrow> exn + real" where
  "throughput size_mb total_duration =
     (if total_duration > 0 then truediv size_mb total_duration else Inr 0)"

text \<open>
  What the loop prints for a trial: the endpoint's name, then a cross with the error text
  of the result, or a cross with the exception caught, or a tick with the handler's
  duration, the total duration and the throughput.
\<close>

datatype printed =
    Testing string
  | Trying string
  | Cross string
  | CrossError exn
  | Tick real real real

text \<open>
  What the whole run meets: for each endpoint and file the environment of that trial, the
  size that \<open>stat()\<close> reports for a file, and the time at the end of the run.
\<close>

record bench_env =
  trial_env :: "string \<Rightarrow> string \<Rightarrow> client_env"
  st_size :: "string \<Rightarrow> int"
  datetime_now :: datetime

definition endpoint_name_of :: "string \<Rightarrow> string" where
  "endpoint_name_of endp = str_replace ''/upload/'' [] endp"

text \<open>
  The body of the inner loop (lines 159 to 197): the \<open>try\<close> covers the call and the merge,
  \<open>except Exception\<close> prints and goes on to the next endpoint, as does the \<open>continue\<close> on an
  error result.
\<close>

definition run_endpoint :: "bench_env \<Rightarrow> string \<Rightarrow> string \<Rightarrow> (string \<times> EndpointMetrics) list \<times> printed list \<Rightarrow> (string \<times> EndpointMetrics) list \<times> printed list" where
  "run_endpoint benv filepath endp st =
     (let (endpoint_results, out) = st;
          endpoint_name = endpoint_name_of endp;
          out = out @ [Trying endpoint_name]
      in case upload_file (trial_env benv endp filepath) endp filepath of
           Inl e \<Rightarrow> (endpoint_results, out @ [CrossError e])
         | Inr (ErrorResult err client_dur) \<Rightarrow> (endpoint_results, out @ [Cross err])
         | Inr (OkResult server_response client_dur total_duration total_memory_delta) \<Rightarrow>
            (case throughput (ServerResponse.file_size_mb server_response) total_duration of
               Inl e \<Rightarrow> (endpoint_results, out @ [CrossError e])
             | Inr mbps \<Rightarrow>
                (let metrics =
                   \<lparr>EndpointMetrics.endpoint = endpoint_name,
                    file_size_bytes = ServerResponse.file_size_bytes server_response,
                    file_size_mb = ServerResponse.file_size_mb server_response,
                    handler_duration_seconds = ServerResponse.handler_duration_seconds server_response,
                    total_duration_seconds = total_duration,
                    total_throughput_mbps = mbps,
                    total_memory_delta_mb = total_memory_delta,
                    memory_start_mb = ServerResponse.memory_start_mb server_response,
                    memory_end_mb = ServerResponse.memory_end_mb server_response,
                    memory_delta_mb = ServerResponse.memory_delta_mb server_response,
                    client_duration = client_dur\<rparr>
                 in case throughput (ServerResponse.file_size_mb server_response) total_duration of
                      Inl e \<Rightarrow> (endpoint_results, out @ [CrossError e])
                    | Inr total_throughput \<Rightarrow>
                       (AList.update endpoint_name metrics endpoint_results,
                        out @ [Tick (ServerResponse.handler_duration_seconds server_response)
                                 total_duration total_throughput]))))"

text \<open>One pass of the outer loop (lines 153 to 205): all endpoints, in order, for one file.\<close>

definition run_size :: "bench_env \<Rightarrow> string \<times> string \<Rightarrow> FileSizeTest \<times> printed list" where
  "run_size benv item =
     (let (size_name, filepath) = item;
          size_bytes = st_size benv filepath;
          (endpoint_results, out) = fold (run_endpoint benv filepath) ENDPOINTS ([], [Testing size_name])
      in (\<lparr>file_size_label = size_name, file_size_bytes = size_bytes, results = endpoint_results\<rparr>,
          out))"

text \<open>
  The \<open>test_files\<close> dict (lines 133 to 145): both branches store the same path under the
  size's label.
\<close>

definition prepare_test_files :: "(string \<times> int) list \<Rightarrow> (string \<times> string) list" where
  "prepare_test_files sizes =
     fold (\<lambda>(size_name, size_bytes) test_files.
             AList.update size_name (path_join TEST_FILES_DIR (''test_'' @ size_name @ ''.bin'')) test_files)
          sizes []"

definition run_matrix :: "bench_env \<Rightarrow> (string \<times> int) list \<Rightarrow> BenchmarkRun \<times> printed list" where
  "run_matrix benv sizes =
     (let rows = map (run_size benv) (prepare_test_files sizes)
      in (\<lparr>timestamp = datetime_now benv,
            test_files = map fst rows,
            endpoints = ENDPOINTS,
            summary = []\<rparr>,
          concat (map snd rows)))"

section \<open>client.py: the history store\<close>

text \<open>
  The store is the results file: \<open>None\<close> while it does not exist, otherwise the document
  in it. \<open>save_results\<close> returns the store it leaves behind, or the exception of a
  document that does not validate.
\<close>

definition save_results :: "json option \<Rightarrow> BenchmarkRun \<Rightarrow> exn + json option" where
  "save_results store benchmark_run =
     (case (case store of
              Some doc \<Rightarrow>
                (case BenchmarkHistory_of_json doc of
                   None \<Rightarrow> Inl ValidationError
                 | Some history \<Rightarrow> Inr history)
            | None \<Rightarrow> Inr \<lparr>runs = []\<rparr>) of
        Inl e \<Rightarrow> Inl e
      | Inr history \<Rightarrow> Inr (Some (BenchmarkHistory_to_json (add_run history benchmark_run))))"

text \<open>\<open>run_benchmark\<close>: the matrix, then the save.\<close>

definition run_benchmark :: "bench_env \<Rightarrow> json option \<Rightarrow> ((exn + json option) \<times> printed list) option" where
  "run_benchmark benv store =
     (case FILE_SIZES of
        None \<Rightarrow> None
      | Some sizes \<Rightarrow>
         (let (benchmark_run, out) = run_matrix benv sizes
          in Some (save_results store benchmark_run, out)))"

text \<open>Saving the runs of several executions, one after the other, on the same store.\<close>

fun save_all :: "json option \<Rightarrow> BenchmarkRun list \<Rightarrow> exn + json option" where
  "save_all store [] = Inr store"
| "save_all store (r # rs) =
     (case save_results store r of Inl e \<Rightarrow> Inl e | Inr store' \<Rightarrow> save_all store' rs)"

text \<open>Loading the store and writing it back with nothing appended.\<close>

definition reload_resave :: "json \<Rightarrow> exn + json" where
  "reload_resave doc =
     (case BenchmarkHistory_of_json doc of
        None \<Rightarrow> Inl ValidationError
      | Some history \<Rightarrow> Inr (BenchmarkHistory_to_json history))"

section \<open>Notions used to state the properties\<close>

text \<open>
  The body a route's handler is given: the chunks of the raw stream for the streaming
  route, the content of the form's file part for the other four.
\<close>

definition delivered_body :: "request \<Rightarrow> bytes" where
  "delivered_body req = (if path req = ''/upload/async-stream'' then concat (stream req) else form_file req)"

text \<open>
  The monotonic clock never runs backwards, whatever the process does between two
  readings.
\<close>

definition clock_monotonic :: "framework \<Rightarrow> bool" where
  "clock_monotonic fw =
     ((\<forall>w. now w \<le> now (before_handler fw w)) \<and> (\<forall>w. now w \<le> now (during_len fw w))
      \<and> (\<forall>n w. now w \<le> now (during_read fw n w)) \<and> (\<forall>w. now w \<le> now (after_handler fw w)))"

text \<open>
  A concrete process and framework, used to evaluate the model: parsing the form takes two
  seconds and one MiB, every other step one second.
\<close>

definition example_framework :: framework where
  "example_framework =
     \<lparr>before_handler = (\<lambda>w. w\<lparr>now := now w + 2, rss := rss w + 1048576\<rparr>),
      during_len = (\<lambda>w. w\<lparr>now := now w + 1\<rparr>),
      during_read = (\<lambda>n w. w\<lparr>now := now w + 1\<rparr>),
      after_handler = (\<lambda>w. w\<lparr>now := now w + 1\<rparr>)\<rparr>"

definition example_stream_request :: request where
  "example_stream_request =
     \<lparr>path = ''/upload/async-stream'', form_file = [],
      stream = replicate 4 (replicate 262144 (CHR ''x''))\<rparr>"

definition example_form_request :: request where
  "example_form_request =
     \<lparr>path = ''/upload/sync-file'', form_file = replicate 1024 (CHR ''x''), stream = []\<rparr>"

definition example_proc :: proc where
  "example_proc = \<lparr>now = 10, rss = 104857600\<rparr>"

text \<open>
  The merged record of a successful trial as the specification describes it: the fields of
  the server's response, the two totals from the headers, the client's own duration, and
  the throughput: size in MiB over total duration, zero when the duration is not positive.
\<close>

definition expected_metrics :: "string \<Rightarrow> ServerResponse \<Rightarrow> real \<Rightarrow> real \<Rightarrow> real \<Rightarrow> EndpointMetrics" where
  "expected_metrics name sr client_dur total_duration total_memory_delta =
     \<lparr>EndpointMetrics.endpoint = name,
      file_size_bytes = ServerResponse.file_size_bytes sr,
      file_size_mb = ServerResponse.file_size_mb sr,
      handler_duration_seconds = ServerResponse.handler_duration_seconds sr,
      total_duration_seconds = total_duration,
      total_throughput_mbps =
        (if total_duration > 0 then ServerResponse.file_size_mb sr / total_duration else 0),
      total_memory_delta_mb = total_memory_delta,
      memory_start_mb = ServerResponse.memory_start_mb sr,
      memory_end_mb = ServerResponse.memory_end_mb sr,
      memory_delta_mb = ServerResponse.memory_delta_mb sr,
      client_duration = client_dur\<rparr>"

text \<open>
  A trial is what \<open>upload_file\<close> gives for an endpoint and a file. It fails when it raises
  (transport failure, timeout, a body or header that does not parse) or returns an error
  result (a status other than 200).
\<close>

definition trial :: "bench_env \<Rightarrow> string \<Rightarrow> string \<Rightarrow> exn + upload_result" where
  "trial benv filepath endp = upload_file (trial_env benv endp filepath) endp filepath"

fun trial_failed :: "exn + upload_result \<Rightarrow> bool" where
  "trial_failed (Inl e) = True"
| "trial_failed (Inr (ErrorResult err client_dur)) = True"
| "trial_failed (Inr (OkResult sr client_dur total_duration total_memory_delta)) = False"

text \<open>The cell and the line that a trial's outcome should leave behind.\<close>

fun cell_of :: "string \<Rightarrow> exn + upload_result \<Rightarrow> EndpointMetrics option" where
  "cell_of name (Inr (OkResult sr client_dur total_duration total_memory_delta)) =
     Some (expected_metrics name sr client_dur total_duration total_memory_delta)"
| "cell_of name _ = None"

fun line_of :: "exn + upload_result \<Rightarrow> printed" where
  "line_of (Inl e) = CrossError e"
| "line_of (Inr (ErrorResult err client_dur)) = Cross err"
| "line_of (Inr (OkResult sr client_dur total_duration total_memory_delta)) =
     Tick (ServerResponse.handler_duration_seconds sr) total_duration
       (if total_duration > 0 then ServerResponse.file_size_mb sr / total_duration else 0)"

text \<open>The diagnostics among the printed lines, and the endpoints a row announced.\<close>

fun is_diagnostic :: "printed \<Rightarrow> bool" where
  "is_diagnostic (Cross err) = True"
| "is_diagnostic (CrossError e) = True"
| "is_diagnostic _ = False"

fun tried :: "printed list \<Rightarrow> string list" where
  "tried [] = []"
| "tried (Trying name # out) = name # tried out"
| "tried (_ # out) = tried out"

text \<open>
  What the network gives back for the request of a trial: the exception that \<open>post\<close>
  raises (a transport failure or a timeout) or a response. It is a failure when it is an
  exception or a response whose status is not 200, and this is the diagnostic it calls for.
\<close>

fun answer_fails :: "exn + http_response \<Rightarrow> bool" where
  "answer_fails (Inl e) = True"
| "answer_fails (Inr response) = (status_code response \<noteq> 200)"

fun answer_line :: "exn + http_response \<Rightarrow> printed" where
  "answer_line (Inl e) = CrossError e"
| "answer_line (Inr response) = Cross (''HTTP '' @ str_int (status_code response))"

text \<open>
  A header's value as the specification has it: zero when the header is missing or
  malformed.
\<close>

definition value_or_zero :: "header_text option \<Rightarrow> real" where
  "value_or_zero h = (case h of Some (FloatText x) \<Rightarrow> x | _ \<Rightarrow> 0)"

text \<open>
  A concrete client environment: the 1 KiB test file, and a server that answers the
  first endpoint through the interceptor above, the second with status 500, lets the third
  time out, answers the fourth with a malformed \<open>X-Total-Duration\<close> header and the fifth
  without that header.
\<close>

definition example_file :: string where
  "example_file = ''test_files/test_1KB.bin''"

definition example_metrics_body :: ServerResponse where
  "example_metrics_body =
     \<lparr>ServerResponse.endpoint = ''async-stream'', file_size_bytes = 1024, file_size_mb = 1 / 1024,
      handler_duration_seconds = 1, memory_start_mb = 100, memory_end_mb = 101, memory_delta_mb = 1\<rparr>"

definition example_malformed_response :: http_response where
  "example_malformed_response =
     \<lparr>status_code = 200, body = ServerResponse_to_json example_metrics_body,
      headers = [''X-Total-Duration'' \<mapsto> NonNumericText, ''X-Total-Memory-Delta'' \<mapsto> FloatText 1]\<rparr>"

definition example_degraded_response :: http_response where
  "example_degraded_response =
     \<lparr>status_code = 200, body = ServerResponse_to_json example_metrics_body,
      headers = [''X-Total-Memory-Delta'' \<mapsto> FloatText 1]\<rparr>"

definition example_server :: "http_request \<Rightarrow> exn + http_response" where
  "example_server r =
     (if url r = BASE_URL @ ''/upload/sync-file''
      then Inr (fst (dispatch example_framework example_form_request example_proc))
      else if url r = BASE_URL @ ''/upload/async-file''
      then Inr \<lparr>status_code = 500, body = JNull, headers = Map.empty\<rparr>
      else if url r = BASE_URL @ ''/upload/sync-uploadfile''
      then Inl TimeoutException
      else if url r = BASE_URL @ ''/upload/async-uploadfile''
      then Inr example_malformed_response
      else Inr example_degraded_response)"

definition example_client_env :: client_env where
  "example_client_env =
     \<lparr>files = [example_file \<mapsto> replicate 1024 (CHR ''x'')],
      post = example_server, clock_before = 0, clock_after = 5\<rparr>"

definition example_bench :: bench_env where
  "example_bench =
     \<lparr>trial_env = (\<lambda>endp filepath. example_client_env),
      st_size = (\<lambda>filepath. 1024),
      datetime_now = \<lparr>year = 2025, month = 1, day = 2, hour = 3, minute = 4, second = 5,
                       microsecond = 6\<rparr>\<rparr>"

text \<open>
  A second client environment, whose network knows exactly two requests: the raw body of
  the 1 KiB file posted to the streaming endpoint, answered with status 503, and the form
  with the open file posted to an upload-file endpoint, which times out. Anything else is
  a transport error.
\<close>

definition example_strict_server :: "http_request \<Rightarrow> exn + http_response" where
  "example_strict_server r =
     (if r = \<lparr>url = ''http://localhost:8000/upload/async-stream'',
               payload = Content (replicate 1024 (CHR ''x''))\<rparr>
      then Inr \<lparr>status_code = 503, body = JNull, headers = Map.empty\<rparr>
      else if r = \<lparr>url = ''http://localhost:8000/upload/sync-uploadfile'',
                    payload = Files [(''file'', (''test_1KB.bin'', OpenFile ''test_files/test_1KB.bin'',
                                                 ''application/octet-stream''))]\<rparr>
      then Inl TimeoutException
      else Inl TransportError)"

definition example_strict_env :: client_env where
  "example_strict_env =
     \<lparr>files = [example_file \<mapsto> replicate 1024 (CHR ''x'')],
      post = example_strict_server, clock_before = 0, clock_after = 5\<rparr>"

text \<open>Two concrete runs; the first has a row with two of the five strategies present.\<close>

definition example_run :: BenchmarkRun where
  "example_run =
     \<lparr>timestamp = \<lparr>year = 2025, month = 1, day = 2, hour = 3, minute = 4, second = 5, microsecond = 6\<rparr>,
      test_files =
        [\<lparr>file_size_label = ''1KB'', file_size_bytes = 1024,
          results = [(''sync-file'', expected_metrics ''sync-file'' example_metrics_body 5 4 1),
                     (''async-stream'', expected_metrics ''async-stream'' example_metrics_body 5 0 1)]\<rparr>],
      endpoints = ENDPOINTS,
      summary = [(''async-stream'', [(''mean_seconds'', 4)])]\<rparr>"

definition example_later_run :: BenchmarkRun where
  "example_later_run =
     \<lparr>timestamp = \<lparr>year = 2025, month = 1, day = 3, hour = 0, minute = 0, second = 0, microsecond = 0\<rparr>,
      test_files = [\<lparr>file_size_label = ''1KB'', file_size_bytes = 1024, results = []\<rparr>],
      endpoints = ENDPOINTS,
      summary = []\<rparr>"

section \<open>Properties\<close>

subsection \<open>The codec reads back what it writes\<close>

lemma update_fresh: "k \<notin> fst ` set d \<Longrightarrow> AList.update k v d = d @ [(k, v)]"
  by (induction d) auto

lemma dict_of_members_roundtrip:
  "(\<forall>kv \<in> set d'. dec (enc (snd kv)) = Some (snd kv)) \<Longrightarrow> distinct (map fst (d @ d'))
   \<Longrightarrow> dict_of_members dec (map (\<lambda>kv. (fst kv, enc (snd kv))) d') d = Some (d @ d')"
proof (induction d' arbitrary: d)
  case Nil
  then show ?case by simp
next
  case (Cons kv d')
  obtain k v where kv: "kv = (k, v)" by (cases kv)
  from Cons.prems(2) have fresh: "k \<notin> fst ` set d" by (auto simp: kv)
  have dec: "dec (enc v) = Some v" using Cons.prems(1) by (simp add: kv)
  have "distinct (map fst ((d @ [(k, v)]) @ d'))" using Cons.prems(2) by (simp add: kv)
  moreover have "\<forall>kv \<in> set d'. dec (enc (snd kv)) = Some (snd kv)" using Cons.prems(1) by simp
  ultimately have "dict_of_members dec (map (\<lambda>kv. (fst kv, enc (snd kv))) d') (d @ [(k, v)]) = Some ((d @ [(k, v)]) @ d')"
    by (rule Cons.IH[rotated])
  then show ?case by (simp add: kv dec update_fresh[OF fresh])
qed

lemma as_dict_roundtrip:
  "(\<forall>kv \<in> set d. dec (enc (snd kv)) = Some (snd kv)) \<Longrightarrow> dict_ok d
   \<Longrightarrow> as_dict dec (dict_to_json enc d) = Some d"
  using dict_of_members_roundtrip[of d dec enc "[]"] by (simp add: dict_to_json_def dict_ok_def)

lemma those_roundtrip:
  "(\<forall>x \<in> set xs. f x = Some x) \<Longrightarrow> those (map f xs) = Some xs"
  by (induction xs) auto

lemma as_list_roundtrip:
  "(\<forall>x \<in> set xs. dec (enc x) = Some x) \<Longrightarrow> as_list dec (JArr (map enc xs)) = Some xs"
  by (simp add: those_roundtrip)

lemma ServerResponse_roundtrip: "ServerResponse_of_json (ServerResponse_to_json r) = Some r"
  by (simp add: ServerResponse_of_json_def ServerResponse_to_json_def get_field_def)

lemma EndpointMetrics_roundtrip: "EndpointMetrics_of_json (EndpointMetrics_to_json m) = Some m"
  by (simp add: EndpointMetrics_of_json_def EndpointMetrics_to_json_def get_field_def)

lemma FileSizeTest_roundtrip: "test_ok t \<Longrightarrow> FileSizeTest_of_json (FileSizeTest_to_json t) = Some t"
  by (simp add: FileSizeTest_of_json_def FileSizeTest_to_json_def get_field_def test_ok_def
      as_dict_roundtrip EndpointMetrics_roundtrip)

lemma summary_roundtrip:
  "dict_ok s \<Longrightarrow> list_all (\<lambda>kv. dict_ok (snd kv)) s
   \<Longrightarrow> as_dict (as_dict as_float) (dict_to_json (dict_to_json JFloat) s) = Some s"
  by (rule as_dict_roundtrip) (auto simp: list_all_iff as_dict_roundtrip)

lemma run_roundtrip: "run_ok r \<Longrightarrow> BenchmarkRun_of_json (BenchmarkRun_to_json r) = Some r"
  by (simp add: BenchmarkRun_of_json_def BenchmarkRun_to_json_def get_field_def run_ok_def
      those_roundtrip FileSizeTest_roundtrip summary_roundtrip list_all_iff)

lemma history_roundtrip:
  "list_all run_ok (runs h) \<Longrightarrow> BenchmarkHistory_of_json (BenchmarkHistory_to_json h) = Some h"
  by (simp add: BenchmarkHistory_of_json_def BenchmarkHistory_to_json_def get_field_def
      those_roundtrip run_roundtrip list_all_iff)

subsection \<open>The file-size matrix\<close>

lemma size_label_spec_label: "1 \<le> n \<Longrightarrow> size_label n = spec_label n"
  by (simp add: size_label_def spec_label_def units_def)

lemma file_sizes_loop_1024:
  "file_sizes_loop 1024 [] = Some
      [(''1KB'', 1024), (''2KB'', 2048), (''4KB'', 4096), (''8KB'', 8192),
       (''16KB'', 16384), (''32KB'', 32768), (''64KB'', 65536),
       (''128KB'', 131072), (''256KB'', 262144), (''512KB'', 524288),
       (''1MB'', 1048576), (''2MB'', 2097152), (''4MB'', 4194304),
       (''8MB'', 8388608), (''16MB'', 16777216), (''32MB'', 33554432),
       (''64MB'', 67108864), (''128MB'', 134217728), (''256MB'', 268435456),
       (''512MB'', 536870912), (''1GB'', 1073741824)]"
  by (simp add: file_sizes_loop.simps size_label_def str_int_def str_nat.simps digit_char_def)

lemma spec_matrix:
  "map (\<lambda>k. (spec_label (1024 * 2 ^ k), 1024 * 2 ^ k :: int)) [0..<21] =
      [(''1KB'', 1024), (''2KB'', 2048), (''4KB'', 4096), (''8KB'', 8192),
       (''16KB'', 16384), (''32KB'', 32768), (''64KB'', 65536),
       (''128KB'', 131072), (''256KB'', 262144), (''512KB'', 524288),
       (''1MB'', 1048576), (''2MB'', 2097152), (''4MB'', 4194304),
       (''8MB'', 8388608), (''16MB'', 16777216), (''32MB'', 33554432),
       (''64MB'', 67108864), (''128MB'', 134217728), (''256MB'', 268435456),
       (''512MB'', 536870912), (''1GB'', 1073741824)]"
  by code_simp

text \<open>
  C7. The file-size matrix is exactly the 21 pairs (label, 1024 * 2^k) for k = 0..20, sizes
  doubling from 1,024 up to and including 1,073,741,824 bytes; each label is the size
  divided by the largest power-of-1024 unit not exceeding it, followed by the unit's
  suffix: "1KB" for 1,024 and "1GB" for 1,073,741,824.
\<close>

theorem C7_file_size_matrix:
  "FILE_SIZES = Some (map (\<lambda>k. (spec_label (1024 * 2 ^ k), 1024 * 2 ^ k)) [0..<21])
   \<and> map_option length FILE_SIZES = Some 21
   \<and> map_option hd FILE_SIZES = Some (''1KB'', 1024)
   \<and> map_option last FILE_SIZES = Some (''1GB'', 1073741824)"
  unfolding spec_matrix FILE_SIZES_def file_sizes_loop_1024 by simp

subsection \<open>The handlers and the interceptor\<close>

lemma read_chunks_total: "fst (read_chunks fw unread n w) = n + int (length unread)"
proof (induction fw unread n w rule: read_chunks.induct)
  case (1 fw unread file_size w)
  show ?case
  proof (cases "take CHUNK_SIZE unread = []")
    case True
    then have "unread = []" by (auto simp: CHUNK_SIZE_def)
    then show ?thesis by (simp add: read_chunks.simps)
  next
    case False
    have "length (take CHUNK_SIZE unread) + length (drop CHUNK_SIZE unread) = length unread"
      by simp
    with False "1.IH" show ?thesis
      by (subst read_chunks.simps) (simp del: length_take length_drop)
  qed
qed

lemma consume_stream_total:
  "fst (consume_stream fw chunks n w) = n + int (length (concat chunks))"
  by (induction chunks arbitrary: n w) auto

lemma length_concat_int: "int (length (concat xss)) = (\<Sum>xs\<leftarrow>xss. int (length xs))"
  by (induction xss) simp_all

lemma handler_sizes:
  "ServerResponse.file_size_bytes (fst (upload_sync_file ctx fw req w)) = int (length (form_file req))"
  "ServerResponse.file_size_bytes (fst (upload_async_file ctx fw req w)) = int (length (form_file req))"
  "ServerResponse.file_size_bytes (fst (upload_sync_uploadfile ctx fw req w)) = int (length (form_file req))"
  "ServerResponse.file_size_bytes (fst (upload_async_uploadfile ctx fw req w)) = int (length (form_file req))"
  "ServerResponse.file_size_bytes (fst (upload_async_stream ctx fw req w)) = int (length (concat (stream req)))"
  using read_chunks_total[of fw "form_file req" 0 w] consume_stream_total[of fw "stream req" 0 w]
  by (simp_all add: upload_sync_file_def upload_async_file_def upload_sync_uploadfile_def
      upload_async_uploadfile_def upload_async_stream_def Let_def case_prod_beta)

lemma handler_mb:
  "ServerResponse.file_size_mb (fst (upload_sync_file ctx fw req w)) = real_of_int (ServerResponse.file_size_bytes (fst (upload_sync_file ctx fw req w))) / 1048576"
  "ServerResponse.file_size_mb (fst (upload_async_file ctx fw req w)) = real_of_int (ServerResponse.file_size_bytes (fst (upload_async_file ctx fw req w))) / 1048576"
  "ServerResponse.file_size_mb (fst (upload_sync_uploadfile ctx fw req w)) = real_of_int (ServerResponse.file_size_bytes (fst (upload_sync_uploadfile ctx fw req w))) / 1048576"
  "ServerResponse.file_size_mb (fst (upload_async_uploadfile ctx fw req w)) = real_of_int (ServerResponse.file_size_bytes (fst (upload_async_uploadfile ctx fw req w))) / 1048576"
  "ServerResponse.file_size_mb (fst (upload_async_stream ctx fw req w)) = real_of_int (ServerResponse.file_size_bytes (fst (upload_async_stream ctx fw req w))) / 1048576"
  by (simp_all add: upload_sync_file_def upload_async_file_def upload_sync_uploadfile_def
      upload_async_uploadfile_def upload_async_stream_def Let_def case_prod_beta)

lemma app_cases:
  assumes "app p = Some handler"
  obtains "p = ''/upload/sync-file''" "handler = upload_sync_file"
  | "p = ''/upload/async-file''" "handler = upload_async_file"
  | "p = ''/upload/sync-uploadfile''" "handler = upload_sync_uploadfile"
  | "p = ''/upload/async-uploadfile''" "handler = upload_async_uploadfile"
  | "p = ''/upload/async-stream''" "handler = upload_async_stream"
  using assms unfolding app_def by (auto split: if_splits)

lemma dispatch_body:
  "app (path req) = Some handler \<Longrightarrow>
   body (fst (dispatch fw req w)) =
     ServerResponse_to_json (fst (handler \<lparr>request_start_time = perf_counter w,
        request_start_memory = get_memory_usage_mb w\<rparr> fw req (before_handler fw w)))"
  by (simp add: dispatch_def call_next_def Let_def case_prod_beta)

text \<open>
  C2. For every upload route and every body delivered to it, the response's
  \<open>file_size_bytes\<close> is the number of bytes of the delivered body (the sum of the lengths
  of the chunks consumed, or the length of the buffered body) and \<open>file_size_mb\<close> is
  \<open>file_size_bytes\<close> divided by 1,048,576. The witness is a 1 MiB upload to the
  raw-streaming route, which reports 1,048,576 bytes.
\<close>

theorem C2_bytes_received:
  assumes "app (path req) = Some handler"
  shows "\<exists>r. ServerResponse_of_json (body (fst (dispatch fw req w))) = Some r
           \<and> ServerResponse.file_size_bytes r = int (length (delivered_body req))
           \<and> (path req = ''/upload/async-stream'' \<longrightarrow>
                 ServerResponse.file_size_bytes r = (\<Sum>chunk\<leftarrow>stream req. int (length chunk)))
           \<and> ServerResponse.file_size_mb r = real_of_int (ServerResponse.file_size_bytes r) / 1048576"
proof -
  let ?ctx = "\<lparr>request_start_time = perf_counter w, request_start_memory = get_memory_usage_mb w\<rparr>"
  let ?r = "fst (handler ?ctx fw req (before_handler fw w))"
  have "ServerResponse_of_json (body (fst (dispatch fw req w))) = Some ?r"
    by (simp add: dispatch_body[OF assms] ServerResponse_roundtrip)
  moreover have "ServerResponse.file_size_bytes ?r = int (length (delivered_body req))"
    using assms by (rule app_cases) (simp_all add: handler_sizes delivered_body_def)
  moreover have "ServerResponse.file_size_mb ?r = real_of_int (ServerResponse.file_size_bytes ?r) / 1048576"
    using assms by (rule app_cases) (simp_all only: handler_mb)
  moreover have "path req = ''/upload/async-stream'' \<longrightarrow>
      int (length (delivered_body req)) = (\<Sum>chunk\<leftarrow>stream req. int (length chunk))"
    by (simp add: delivered_body_def length_concat_int)
  ultimately show ?thesis by (intro exI[of _ ?r]) simp
qed

lemma example_clock_monotonic: "clock_monotonic example_framework"
  by (simp add: clock_monotonic_def example_framework_def)

theorem C2_bytes_received_witness:
  "app (path example_stream_request) = Some upload_async_stream
   \<and> (\<exists>r. ServerResponse_of_json (body (fst (dispatch example_framework example_stream_request example_proc))) = Some r
           \<and> ServerResponse.file_size_bytes r = 1048576
           \<and> ServerResponse.file_size_mb r = 1)"
proof -
  have a: "app (path example_stream_request) = Some upload_async_stream"
    by (simp add: app_def example_stream_request_def)
  have b: "int (length (delivered_body example_stream_request)) = 1048576"
    by (simp add: delivered_body_def example_stream_request_def length_concat sum_list_replicate)
  from C2_bytes_received[OF a, of example_framework example_proc] b a show ?thesis
    by auto
qed

lemma handler_duration_eq:
  assumes "app p = Some handler"
  shows "ServerResponse.handler_duration_seconds (fst (handler ctx fw req w))
           = now (snd (handler ctx fw req w)) - now w"
  using assms
  by (rule app_cases)
     (simp_all add: upload_sync_file_def upload_async_file_def upload_sync_uploadfile_def
        upload_async_uploadfile_def upload_async_stream_def Let_def case_prod_beta perf_counter_def)

lemma handler_memory_eq:
  assumes "app p = Some handler"
  shows "ServerResponse.memory_start_mb (fst (handler ctx fw req w)) = request_start_memory ctx
         \<and> ServerResponse.memory_end_mb (fst (handler ctx fw req w))
               = get_memory_usage_mb (snd (handler ctx fw req w))
         \<and> ServerResponse.memory_delta_mb (fst (handler ctx fw req w))
               = get_memory_usage_mb (snd (handler ctx fw req w)) - request_start_memory ctx"
  using assms
  by (rule app_cases)
     (simp_all add: upload_sync_file_def upload_async_file_def upload_sync_uploadfile_def
        upload_async_uploadfile_def upload_async_stream_def Let_def case_prod_beta)

lemma dispatch_total_duration:
  "app (path req) = Some handler \<Longrightarrow>
   headers (fst (dispatch fw req w)) ''X-Total-Duration'' =
     Some (FloatText (now (after_handler fw (snd (handler \<lparr>request_start_time = perf_counter w,
        request_start_memory = get_memory_usage_mb w\<rparr> fw req (before_handler fw w)))) - now w))"
  by (simp add: dispatch_def call_next_def Let_def case_prod_beta perf_counter_def)

text \<open>
  C3. With a clock that never runs backwards, the handler's duration in the response body
  is at most the total duration in the \<open>X-Total-Duration\<close> header: the interceptor reads
  the clock before the handler does and again after the handler has returned.
\<close>

theorem C3_handler_within_total:
  assumes "clock_monotonic fw" and "app (path req) = Some handler"
  shows "\<exists>r total. ServerResponse_of_json (body (fst (dispatch fw req w))) = Some r
           \<and> headers (fst (dispatch fw req w)) ''X-Total-Duration'' = Some (FloatText total)
           \<and> ServerResponse.handler_duration_seconds r \<le> total"
proof -
  let ?ctx = "\<lparr>request_start_time = perf_counter w, request_start_memory = get_memory_usage_mb w\<rparr>"
  let ?w1 = "before_handler fw w"
  let ?r = "fst (handler ?ctx fw req ?w1)"
  let ?w2 = "snd (handler ?ctx fw req ?w1)"
  let ?w3 = "after_handler fw ?w2"
  have entry: "now w \<le> now ?w1" and exit: "now ?w2 \<le> now ?w3"
    using assms(1) by (simp_all add: clock_monotonic_def)
  have "ServerResponse.handler_duration_seconds ?r = now ?w2 - now ?w1"
    by (rule handler_duration_eq[OF assms(2)])
  with entry exit have "ServerResponse.handler_duration_seconds ?r \<le> now ?w3 - now w"
    by linarith
  moreover have "ServerResponse_of_json (body (fst (dispatch fw req w))) = Some ?r"
    by (simp add: dispatch_body[OF assms(2)] ServerResponse_roundtrip)
  moreover note dispatch_total_duration[OF assms(2), of fw w]
  ultimately show ?thesis by blast
qed

theorem C3_handler_within_total_witness:
  "clock_monotonic example_framework
   \<and> app (path example_stream_request) = Some upload_async_stream
   \<and> (\<exists>r total. ServerResponse_of_json (body (fst (dispatch example_framework example_stream_request example_proc))) = Some r
           \<and> headers (fst (dispatch example_framework example_stream_request example_proc)) ''X-Total-Duration'' = Some (FloatText total)
           \<and> ServerResponse.handler_duration_seconds r \<le> total)"
proof -
  have a: "app (path example_stream_request) = Some upload_async_stream"
    by (simp add: app_def example_stream_request_def)
  from C3_handler_within_total[OF example_clock_monotonic a, of example_proc] a example_clock_monotonic
  show ?thesis by blast
qed

lemma example_dispatch:
  "ServerResponse_of_json (body (fst (dispatch example_framework example_form_request example_proc)))
     = Some \<lparr>ServerResponse.endpoint = ''sync-file'', file_size_bytes = 1024, file_size_mb = 1 / 1024,
         handler_duration_seconds = 1, memory_start_mb = 100, memory_end_mb = 101, memory_delta_mb = 1\<rparr>"
  by (simp add: dispatch_def call_next_def app_def example_form_request_def example_framework_def
      example_proc_def upload_sync_file_def perf_counter_def get_memory_usage_mb_def Let_def
      ServerResponse_roundtrip)

text \<open>
  C1, as stated, fails: \<open>memory_start_mb\<close> is not the memory at the handler's entry. With a
  framework that takes one MiB while it parses the form, the handler is entered at 101 MiB
  and left at 101 MiB, but the response reports a start of 100 MiB and a delta of 1 MiB.
\<close>

theorem C1_counterexample:
  "map_option ServerResponse.memory_start_mb
     (ServerResponse_of_json (body (fst (dispatch example_framework example_form_request example_proc))))
     = Some 100
   \<and> get_memory_usage_mb (before_handler example_framework example_proc) = 101
   \<and> map_option ServerResponse.memory_start_mb
     (ServerResponse_of_json (body (fst (dispatch example_framework example_form_request example_proc))))
     \<noteq> Some (get_memory_usage_mb (before_handler example_framework example_proc))
   \<and> map_option ServerResponse.memory_delta_mb
     (ServerResponse_of_json (body (fst (dispatch example_framework example_form_request example_proc))))
     = Some 1
   \<and> get_memory_usage_mb (during_len example_framework (before_handler example_framework example_proc))
       - get_memory_usage_mb (before_handler example_framework example_proc) = 0"
  by (simp add: example_dispatch)
     (simp add: example_framework_def example_proc_def get_memory_usage_mb_def)

text \<open>
  C1, amended. For every upload route, \<open>memory_start_mb\<close> is the resident memory the
  interceptor sampled on its own entry, before the framework's work for the request,
  \<open>memory_end_mb\<close> is the resident memory when the handler finishes, and \<open>memory_delta_mb\<close>
  is their difference; so the delta includes what the framework did before it called the
  handler.
\<close>

theorem C1_memory_fields:
  assumes "app (path req) = Some handler"
  shows "\<exists>r. ServerResponse_of_json (body (fst (dispatch fw req w))) = Some r
           \<and> ServerResponse.memory_start_mb r = get_memory_usage_mb w
           \<and> ServerResponse.memory_end_mb r
                = get_memory_usage_mb (snd (handler \<lparr>request_start_time = perf_counter w,
                    request_start_memory = get_memory_usage_mb w\<rparr> fw req (before_handler fw w)))
           \<and> ServerResponse.memory_delta_mb r
                = ServerResponse.memory_end_mb r - ServerResponse.memory_start_mb r"
proof -
  let ?ctx = "\<lparr>request_start_time = perf_counter w, request_start_memory = get_memory_usage_mb w\<rparr>"
  let ?r = "fst (handler ?ctx fw req (before_handler fw w))"
  have "ServerResponse_of_json (body (fst (dispatch fw req w))) = Some ?r"
    by (simp add: dispatch_body[OF assms] ServerResponse_roundtrip)
  with handler_memory_eq[OF assms, of ?ctx fw req "before_handler fw w"] show ?thesis
    by simp
qed

theorem C1_memory_fields_witness:
  "app (path example_form_request) = Some upload_sync_file
   \<and> (\<exists>r. ServerResponse_of_json (body (fst (dispatch example_framework example_form_request example_proc))) = Some r
           \<and> ServerResponse.memory_start_mb r = get_memory_usage_mb example_proc
           \<and> ServerResponse.memory_end_mb r = 101
           \<and> ServerResponse.memory_delta_mb r
                = ServerResponse.memory_end_mb r - ServerResponse.memory_start_mb r)"
proof -
  have a: "app (path example_form_request) = Some upload_sync_file"
    by (simp add: app_def example_form_request_def)
  have b: "get_memory_usage_mb (snd (upload_sync_file \<lparr>request_start_time = perf_counter example_proc,
                    request_start_memory = get_memory_usage_mb example_proc\<rparr> example_framework example_form_request
                    (before_handler example_framework example_proc))) = 101"
    by (simp add: upload_sync_file_def Let_def example_framework_def example_proc_def get_memory_usage_mb_def)
  from C1_memory_fields[OF a, of example_framework example_proc] a b show ?thesis
    by auto
qed

subsection \<open>The orchestrator's inner loop\<close>

lemma throughput_total: "throughput mb td = Inr (if td > 0 then mb / td else 0)"
  by (simp add: throughput_def truediv_def)

lemma run_endpoint_step:
  "run_endpoint benv fp e (rs, out) =
     (case cell_of (endpoint_name_of e) (trial benv fp e) of
        None \<Rightarrow> rs
      | Some m \<Rightarrow> AList.update (endpoint_name_of e) m rs,
      out @ [Trying (endpoint_name_of e), line_of (trial benv fp e)])"
  by (cases "trial benv fp e" rule: trial_failed.cases)
     (simp_all add: run_endpoint_def trial_def throughput_total expected_metrics_def Let_def)

lemma fold_run_endpoint:
  "distinct (map endpoint_name_of es) \<Longrightarrow> \<forall>e \<in> set es. endpoint_name_of e \<notin> fst ` set rs \<Longrightarrow>
   fold (run_endpoint benv fp) es (rs, out) =
     (rs @ List.map_filter (\<lambda>e. map_option (Pair (endpoint_name_of e))
                               (cell_of (endpoint_name_of e) (trial benv fp e))) es,
      out @ concat (map (\<lambda>e. [Trying (endpoint_name_of e), line_of (trial benv fp e)]) es))"
proof (induction es arbitrary: rs out)
  case Nil
  then show ?case by (simp add: List.map_filter_simps)
next
  case (Cons e es)
  let ?name = "endpoint_name_of e"
  let ?rs' = "case cell_of ?name (trial benv fp e) of None \<Rightarrow> rs | Some m \<Rightarrow> AList.update ?name m rs"
  have fresh: "?name \<notin> fst ` set rs" using Cons.prems(2) by simp
  have rs': "?rs' = rs @ (case cell_of ?name (trial benv fp e) of None \<Rightarrow> [] | Some m \<Rightarrow> [(?name, m)])"
    using fresh by (simp add: update_fresh split: option.splits)
  have keys: "fst ` set ?rs' \<subseteq> insert ?name (fst ` set rs)"
    by (subst rs') (auto split: option.splits)
  have "distinct (map endpoint_name_of es)" using Cons.prems(1) by simp
  moreover have "\<forall>e' \<in> set es. endpoint_name_of e' \<notin> fst ` set ?rs'"
  proof
    fix e' assume e': "e' \<in> set es"
    then have "endpoint_name_of e' \<in> set (map endpoint_name_of es)" by simp
    moreover have "?name \<notin> set (map endpoint_name_of es)" using Cons.prems(1) by simp
    ultimately have "endpoint_name_of e' \<noteq> ?name" by metis
    moreover have "endpoint_name_of e' \<notin> fst ` set rs" using Cons.prems(2) e' by simp
    ultimately show "endpoint_name_of e' \<notin> fst ` set ?rs'" using keys by blast
  qed
  ultimately have "fold (run_endpoint benv fp) es (?rs', out @ [Trying ?name, line_of (trial benv fp e)]) =
     (?rs' @ List.map_filter (\<lambda>e. map_option (Pair (endpoint_name_of e))
                               (cell_of (endpoint_name_of e) (trial benv fp e))) es,
      (out @ [Trying ?name, line_of (trial benv fp e)])
        @ concat (map (\<lambda>e. [Trying (endpoint_name_of e), line_of (trial benv fp e)]) es))"
    by (rule Cons.IH)
  then show ?case
    by (simp add: run_endpoint_step) (simp add: rs' List.map_filter_simps split: option.splits)
qed

lemma map_of_cells:
  "distinct (map name es) \<Longrightarrow> e \<in> set es \<Longrightarrow>
   map_of (List.map_filter (\<lambda>e. map_option (Pair (name e)) (cell e)) es) (name e) = cell e"
proof (induction es)
  case Nil
  then show ?case by simp
next
  case (Cons a es)
  show ?case
  proof (cases "a = e")
    case True
    have "map_of (List.map_filter (\<lambda>e. map_option (Pair (name e)) (cell e)) es) (name e) = None"
      using Cons.prems(1) True by (auto simp: map_of_eq_None_iff List.map_filter_def)
    then show ?thesis using True by (cases "cell e") (simp_all add: List.map_filter_simps)
  next
    case False
    then have "e \<in> set es" "name a \<noteq> name e" using Cons.prems by auto
    then show ?thesis using Cons by (cases "cell a") (simp_all add: List.map_filter_simps)
  qed
qed

lemma tried_line_of: "tried (line_of x # out) = tried out"
  by (cases x rule: trial_failed.cases) simp_all

lemma tried_lines:
  "tried (concat (map (\<lambda>e. [Trying (name e), line_of (t e)]) es)) = map name es"
  by (induction es) (simp_all add: tried_line_of)

lemma endpoint_names:
  "map endpoint_name_of ENDPOINTS =
     [''sync-file'', ''async-file'', ''sync-uploadfile'', ''async-uploadfile'', ''async-stream'']"
  by (simp add: ENDPOINTS_def endpoint_name_of_def str_replace.simps)

lemma run_size_eq:
  "run_size benv (size_name, fp) =
     (\<lparr>file_size_label = size_name, file_size_bytes = st_size benv fp,
       results = List.map_filter (\<lambda>e. map_option (Pair (endpoint_name_of e))
                               (cell_of (endpoint_name_of e) (trial benv fp e))) ENDPOINTS\<rparr>,
      Testing size_name # concat (map (\<lambda>e. [Trying (endpoint_name_of e), line_of (trial benv fp e)]) ENDPOINTS))"
proof -
  have "distinct (map endpoint_name_of ENDPOINTS)" by (simp add: endpoint_names)
  then have "fold (run_endpoint benv fp) ENDPOINTS ([], [Testing size_name]) =
     ([] @ List.map_filter (\<lambda>e. map_option (Pair (endpoint_name_of e))
                               (cell_of (endpoint_name_of e) (trial benv fp e))) ENDPOINTS,
      [Testing size_name] @ concat (map (\<lambda>e. [Trying (endpoint_name_of e), line_of (trial benv fp e)]) ENDPOINTS))"
    by (rule fold_run_endpoint) simp
  then show ?thesis by (simp add: run_size_def Let_def)
qed

text \<open>
  C4. For every successful trial the recorded \<open>total_throughput_mbps\<close> is \<open>file_size_mb\<close>
  divided by \<open>total_duration_seconds\<close> when that duration is positive and 0 when it is 0,
  and computing it never raises a division error.
\<close>

theorem C4_throughput:
  assumes "trial benv fp endp = Inr (OkResult sr client_dur total_duration total_memory_delta)"
  shows "\<exists>m. fst (run_endpoint benv fp endp (rs, out)) = AList.update (endpoint_name_of endp) m rs
           \<and> map_of (fst (run_endpoint benv fp endp (rs, out))) (endpoint_name_of endp) = Some m
           \<and> EndpointMetrics.file_size_mb m = ServerResponse.file_size_mb sr
           \<and> total_duration_seconds m = total_duration
           \<and> (total_duration_seconds m > 0 \<longrightarrow>
                 total_throughput_mbps m = EndpointMetrics.file_size_mb m / total_duration_seconds m)
           \<and> (total_duration_seconds m = 0 \<longrightarrow> total_throughput_mbps m = 0)
           \<and> throughput (ServerResponse.file_size_mb sr) total_duration \<noteq> Inl ZeroDivisionError"
proof -
  let ?m = "expected_metrics (endpoint_name_of endp) sr client_dur total_duration total_memory_delta"
  have "fst (run_endpoint benv fp endp (rs, out)) = AList.update (endpoint_name_of endp) ?m rs"
    by (simp add: run_endpoint_step assms)
  moreover have "map_of (AList.update (endpoint_name_of endp) ?m rs) (endpoint_name_of endp) = Some ?m"
    by (simp add: update_conv')
  moreover have "throughput (ServerResponse.file_size_mb sr) total_duration \<noteq> Inl ZeroDivisionError"
    by (simp add: throughput_total)
  ultimately show ?thesis
    by (intro exI[of _ ?m]) (simp add: expected_metrics_def)
qed

lemma example_response:
  "fst (dispatch example_framework example_form_request example_proc) =
     \<lparr>status_code = 200,
      body = ServerResponse_to_json
        \<lparr>ServerResponse.endpoint = ''sync-file'', file_size_bytes = 1024, file_size_mb = 1 / 1024,
         handler_duration_seconds = 1, memory_start_mb = 100, memory_end_mb = 101, memory_delta_mb = 1\<rparr>,
      headers = [''X-Total-Duration'' \<mapsto> FloatText 4, ''X-Total-Memory-Delta'' \<mapsto> FloatText 1]\<rparr>"
  by (simp add: dispatch_def call_next_def app_def example_form_request_def example_framework_def
      example_proc_def upload_sync_file_def perf_counter_def get_memory_usage_mb_def Let_def)

lemma example_trial_sync_file:
  "trial example_bench example_file ''/upload/sync-file'' =
     Inr (OkResult \<lparr>ServerResponse.endpoint = ''sync-file'', file_size_bytes = 1024, file_size_mb = 1 / 1024,
         handler_duration_seconds = 1, memory_start_mb = 100, memory_end_mb = 101, memory_delta_mb = 1\<rparr> 5 4 1)"
  by (simp add: trial_def example_bench_def example_client_env_def upload_file_def upload_request_def
      example_server_def example_response ServerResponse_roundtrip header_float_def Let_def)

lemma example_trial_async_file:
  "trial example_bench example_file ''/upload/async-file'' = Inr (ErrorResult ''HTTP 500'' 5)"
  by (simp add: trial_def example_bench_def example_client_env_def upload_file_def upload_request_def
      example_server_def BASE_URL_def Let_def str_int_def str_nat.simps digit_char_def)

lemma example_trial_sync_uploadfile:
  "trial example_bench example_file ''/upload/sync-uploadfile'' = Inl TimeoutException"
  by (simp add: trial_def example_bench_def example_client_env_def upload_file_def upload_request_def
      example_server_def BASE_URL_def Let_def)

lemma example_trial_async_uploadfile:
  "trial example_bench example_file ''/upload/async-uploadfile'' = Inl ValueError"
  by (simp add: trial_def example_bench_def example_client_env_def upload_file_def upload_request_def
      example_server_def example_malformed_response_def example_degraded_response_def BASE_URL_def
      ServerResponse_roundtrip header_float_def Let_def)

lemma example_trial_async_stream:
  "trial example_bench example_file ''/upload/async-stream'' = Inr (OkResult example_metrics_body 5 0 1)"
  by (simp add: trial_def example_bench_def example_client_env_def upload_file_def upload_request_def
      example_server_def example_malformed_response_def example_degraded_response_def BASE_URL_def
      ServerResponse_roundtrip header_float_def Let_def)

theorem C4_throughput_witness:
  "trial example_bench example_file ''/upload/sync-file'' =
     Inr (OkResult \<lparr>ServerResponse.endpoint = ''sync-file'', file_size_bytes = 1024, file_size_mb = 1 / 1024,
         handler_duration_seconds = 1, memory_start_mb = 100, memory_end_mb = 101, memory_delta_mb = 1\<rparr> 5 4 1)
   \<and> (\<exists>m. map_of (fst (run_endpoint example_bench example_file ''/upload/sync-file'' ([], [])))
               (endpoint_name_of ''/upload/sync-file'') = Some m
          \<and> total_duration_seconds m = 4 \<and> total_throughput_mbps m = 1 / 4096)
   \<and> trial example_bench example_file ''/upload/async-stream'' = Inr (OkResult example_metrics_body 5 0 1)
   \<and> (\<exists>m. map_of (fst (run_endpoint example_bench example_file ''/upload/async-stream'' ([], [])))
               (endpoint_name_of ''/upload/async-stream'') = Some m
          \<and> total_duration_seconds m = 0 \<and> total_throughput_mbps m = 0)"
  using C4_throughput[OF example_trial_sync_file, of "[]" "[]"]
        C4_throughput[OF example_trial_async_stream, of "[]" "[]"]
        example_trial_sync_file example_trial_async_stream
  by (auto simp: example_metrics_body_def)

lemma save_results_fresh:
  "save_results None r = Inr (Some (BenchmarkHistory_to_json \<lparr>runs = [r]\<rparr>))"
  by (simp add: save_results_def add_run_def)

lemma prepared_files:
  "map fst (prepare_test_files
      [(''1KB'', 1024), (''2KB'', 2048), (''4KB'', 4096), (''8KB'', 8192),
       (''16KB'', 16384), (''32KB'', 32768), (''64KB'', 65536),
       (''128KB'', 131072), (''256KB'', 262144), (''512KB'', 524288),
       (''1MB'', 1048576), (''2MB'', 2097152), (''4MB'', 4194304),
       (''8MB'', 8388608), (''16MB'', 16777216), (''32MB'', 33554432),
       (''64MB'', 67108864), (''128MB'', 134217728), (''256MB'', 268435456),
       (''512MB'', 536870912), (''1GB'', 1073741824)]) =
   [''1KB'', ''2KB'', ''4KB'', ''8KB'', ''16KB'', ''32KB'', ''64KB'', ''128KB'', ''256KB'', ''512KB'',
    ''1MB'', ''2MB'', ''4MB'', ''8MB'', ''16MB'', ''32MB'', ''64MB'', ''128MB'', ''256MB'', ''512MB'', ''1GB'']"
  by (simp add: prepare_test_files_def)

lemma run_benchmark_completes:
  "\<exists>r out. run_benchmark benv None = Some (Inr (Some (BenchmarkHistory_to_json \<lparr>runs = [r]\<rparr>)), out)
      \<and> length (test_files r) = 21"
proof -
  let ?sizes = "[(''1KB'', 1024), (''2KB'', 2048), (''4KB'', 4096), (''8KB'', 8192),
       (''16KB'', 16384), (''32KB'', 32768), (''64KB'', 65536),
       (''128KB'', 131072), (''256KB'', 262144), (''512KB'', 524288),
       (''1MB'', 1048576), (''2MB'', 2097152), (''4MB'', 4194304),
       (''8MB'', 8388608), (''16MB'', 16777216), (''32MB'', 33554432),
       (''64MB'', 67108864), (''128MB'', 134217728), (''256MB'', 268435456),
       (''512MB'', 536870912), (''1GB'', 1073741824)] :: (string \<times> int) list"
  let ?r = "fst (run_matrix benv ?sizes)"
  let ?out = "snd (run_matrix benv ?sizes)"
  have label: "\<And>item. file_size_label (fst (run_size benv item)) = fst item"
    by (simp add: run_size_def Let_def case_prod_beta)
  have a: "run_benchmark benv None = Some (Inr (Some (BenchmarkHistory_to_json \<lparr>runs = [?r]\<rparr>)), ?out)"
    unfolding run_benchmark_def FILE_SIZES_def file_sizes_loop_1024
    by (simp add: save_results_fresh case_prod_beta)
  have b: "map file_size_label (test_files ?r) = map fst (prepare_test_files ?sizes)"
    by (simp add: run_matrix_def Let_def label o_def)
  have c: "length (test_files ?r) = 21"
    using arg_cong[OF b[unfolded prepared_files], of length] by simp
  show ?thesis
    by (rule exI[of _ ?r], rule exI[of _ ?out], rule conjI[OF a c])
qed

lemma upload_file_raises:
  "files env fp = Some on_disk \<Longrightarrow> post env (upload_request endp fp on_disk) = Inl e \<Longrightarrow>
   upload_file env endp fp = Inl e"
  by (simp add: upload_file_def Let_def)

lemma upload_file_non200:
  "files env fp = Some on_disk \<Longrightarrow> post env (upload_request endp fp on_disk) = Inr response \<Longrightarrow>
   status_code response \<noteq> 200 \<Longrightarrow>
   upload_file env endp fp =
     Inr (ErrorResult (''HTTP '' @ str_int (status_code response)) (clock_after env - clock_before env))"
  by (simp add: upload_file_def Let_def)

lemma upload_file_200:
  "files env fp = Some on_disk \<Longrightarrow> post env (upload_request endp fp on_disk) = Inr response \<Longrightarrow>
   status_code response = 200 \<Longrightarrow> ServerResponse_of_json (body response) = Some sr \<Longrightarrow>
   headers response ''X-Total-Duration'' = Some (FloatText td) \<Longrightarrow>
   headers response ''X-Total-Memory-Delta'' = Some (FloatText tm) \<Longrightarrow>
   upload_file env endp fp = Inr (OkResult sr (clock_after env - clock_before env) td tm)"
  by (simp add: upload_file_def header_float_def Let_def)

text \<open>
  C5. When the network fails the trial of an endpoint (it raises a transport failure or a
  timeout, or answers with a status other than 200), the trial fails, the row's result
  mapping has no entry under that endpoint's name, the diagnostic for that failure is
  printed, every endpoint of the list is still tried in order, every other endpoint's
  entry is what its own trial gives, and the run still has one row per test file; the
  whole benchmark, whatever its trials meet, ends with its 21 rows saved.
\<close>

theorem C5_failed_cell_absent:
  assumes "endp \<in> set ENDPOINTS"
    and "files (trial_env benv endp fp) fp = Some on_disk"
    and "post (trial_env benv endp fp) (upload_request endp fp on_disk) = answer"
    and "answer_fails answer"
  shows "trial_failed (trial benv fp endp)
         \<and> map_of (results (fst (run_size benv (size_name, fp)))) (endpoint_name_of endp) = None
         \<and> endpoint_name_of endp \<notin> fst ` set (results (fst (run_size benv (size_name, fp))))
         \<and> is_diagnostic (answer_line answer)
         \<and> answer_line answer \<in> set (snd (run_size benv (size_name, fp)))
         \<and> tried (snd (run_size benv (size_name, fp))) = map endpoint_name_of ENDPOINTS
         \<and> (\<forall>other \<in> set ENDPOINTS. other \<noteq> endp \<longrightarrow>
               map_of (results (fst (run_size benv (size_name, fp)))) (endpoint_name_of other)
                 = cell_of (endpoint_name_of other) (trial benv fp other))
         \<and> length (test_files (fst (run_matrix benv sizes))) = length (prepare_test_files sizes)
         \<and> (\<exists>r out. run_benchmark benv None
                      = Some (Inr (Some (BenchmarkHistory_to_json \<lparr>runs = [r]\<rparr>)), out)
                  \<and> length (test_files r) = 21)"
proof -
  let ?env = "trial_env benv endp fp"
  let ?cells = "List.map_filter (\<lambda>e. map_option (Pair (endpoint_name_of e))
                               (cell_of (endpoint_name_of e) (trial benv fp e))) ENDPOINTS"
  have outcome: "trial_failed (trial benv fp endp) \<and> line_of (trial benv fp endp) = answer_line answer"
  proof (cases answer)
    case (Inl e)
    with assms(3) have "post ?env (upload_request endp fp on_disk) = Inl e" by simp
    then have "trial benv fp endp = Inl e"
      unfolding trial_def by (rule upload_file_raises[OF assms(2)])
    then show ?thesis by (simp add: Inl)
  next
    case (Inr response)
    with assms(3) have p: "post ?env (upload_request endp fp on_disk) = Inr response" by simp
    from assms(4) Inr have "status_code response \<noteq> 200" by simp
    then have "trial benv fp endp =
        Inr (ErrorResult (''HTTP '' @ str_int (status_code response))
               (clock_after ?env - clock_before ?env))"
      unfolding trial_def by (rule upload_file_non200[OF assms(2) p])
    then show ?thesis by (simp add: Inr)
  qed
  note failed = outcome[THEN conjunct1]
  note line = outcome[THEN conjunct2]
  have d: "distinct (map endpoint_name_of ENDPOINTS)" by (simp add: endpoint_names)
  have res: "results (fst (run_size benv (size_name, fp))) = ?cells"
    by (simp add: run_size_eq)
  have cell: "\<And>e. e \<in> set ENDPOINTS \<Longrightarrow>
      map_of ?cells (endpoint_name_of e) = cell_of (endpoint_name_of e) (trial benv fp e)"
    by (rule map_of_cells[OF d])
  have none: "cell_of (endpoint_name_of endp) (trial benv fp endp) = None"
    using failed by (cases "trial benv fp endp" rule: trial_failed.cases) simp_all
  have a: "map_of ?cells (endpoint_name_of endp) = None"
    using cell[OF assms(1)] none by simp
  then have b: "endpoint_name_of endp \<notin> fst ` set ?cells"
    by (simp add: map_of_eq_None_iff)
  have c: "is_diagnostic (answer_line answer)"
    by (cases answer) simp_all
  have "line_of (trial benv fp endp) \<in> set (snd (run_size benv (size_name, fp)))"
    using assms(1) by (auto simp: run_size_eq)
  then have e: "answer_line answer \<in> set (snd (run_size benv (size_name, fp)))"
    by (simp only: line)
  have f: "tried (snd (run_size benv (size_name, fp))) = map endpoint_name_of ENDPOINTS"
    by (simp add: run_size_eq tried_lines)
  have g: "length (test_files (fst (run_matrix benv sizes))) = length (prepare_test_files sizes)"
    by (simp add: run_matrix_def Let_def)
  note h = run_benchmark_completes[of benv]
  show ?thesis
    unfolding res using failed a b c e[unfolded res] f[unfolded res] g h cell by simp
qed

theorem C5_failed_cell_absent_witness:
  "''/upload/async-file'' \<in> set ENDPOINTS
   \<and> files (trial_env example_bench ''/upload/async-file'' example_file) example_file
        = Some (replicate 1024 (CHR ''x''))
   \<and> post (trial_env example_bench ''/upload/async-file'' example_file)
        (upload_request ''/upload/async-file'' example_file (replicate 1024 (CHR ''x'')))
        = Inr \<lparr>status_code = 500, body = JNull, headers = Map.empty\<rparr>
   \<and> answer_fails (Inr \<lparr>status_code = 500, body = JNull, headers = Map.empty\<rparr>)
   \<and> map_of (results (fst (run_size example_bench (''1KB'', example_file)))) ''async-file'' = None
   \<and> Cross ''HTTP 500'' \<in> set (snd (run_size example_bench (''1KB'', example_file)))
   \<and> ''/upload/sync-uploadfile'' \<in> set ENDPOINTS
   \<and> post (trial_env example_bench ''/upload/sync-uploadfile'' example_file)
        (upload_request ''/upload/sync-uploadfile'' example_file (replicate 1024 (CHR ''x'')))
        = Inl TimeoutException
   \<and> answer_fails (Inl TimeoutException)
   \<and> map_of (results (fst (run_size example_bench (''1KB'', example_file)))) ''sync-uploadfile'' = None
   \<and> CrossError TimeoutException \<in> set (snd (run_size example_bench (''1KB'', example_file)))
   \<and> tried (snd (run_size example_bench (''1KB'', example_file)))
        = [''sync-file'', ''async-file'', ''sync-uploadfile'', ''async-uploadfile'', ''async-stream'']
   \<and> map_of (results (fst (run_size example_bench (''1KB'', example_file)))) ''async-stream''
        = Some (expected_metrics ''async-stream'' example_metrics_body 5 0 1)"
proof -
  let ?e500 = "Inr \<lparr>status_code = 500, body = JNull, headers = Map.empty\<rparr> :: exn + http_response"
  have a: "''/upload/async-file'' \<in> set ENDPOINTS" by (simp add: ENDPOINTS_def)
  have a': "''/upload/sync-uploadfile'' \<in> set ENDPOINTS" by (simp add: ENDPOINTS_def)
  have c: "''/upload/async-stream'' \<in> set ENDPOINTS" by (simp add: ENDPOINTS_def)
  have fl: "files (trial_env example_bench ''/upload/async-file'' example_file) example_file
        = Some (replicate 1024 (CHR ''x''))"
    by (simp add: example_bench_def example_client_env_def)
  have fl': "files (trial_env example_bench ''/upload/sync-uploadfile'' example_file) example_file
        = Some (replicate 1024 (CHR ''x''))"
    by (simp add: example_bench_def example_client_env_def)
  have p: "post (trial_env example_bench ''/upload/async-file'' example_file)
        (upload_request ''/upload/async-file'' example_file (replicate 1024 (CHR ''x''))) = ?e500"
    by (simp add: example_bench_def example_client_env_def example_server_def upload_request_def
        BASE_URL_def)
  have p': "post (trial_env example_bench ''/upload/sync-uploadfile'' example_file)
        (upload_request ''/upload/sync-uploadfile'' example_file (replicate 1024 (CHR ''x'')))
        = Inl TimeoutException"
    by (simp add: example_bench_def example_client_env_def example_server_def upload_request_def
        BASE_URL_def)
  have af: "answer_fails ?e500" by simp
  have af': "answer_fails (Inl TimeoutException)" by simp
  have n: "endpoint_name_of ''/upload/async-file'' = ''async-file''"
    "endpoint_name_of ''/upload/sync-uploadfile'' = ''sync-uploadfile''"
    "endpoint_name_of ''/upload/async-stream'' = ''async-stream''"
    by (simp_all add: endpoint_name_of_def str_replace.simps)
  have l: "answer_line ?e500 = Cross ''HTTP 500''"
    "answer_line (Inl TimeoutException) = CrossError TimeoutException"
    by (simp_all add: str_int_def str_nat.simps digit_char_def)
  have ne: "''/upload/async-stream'' \<noteq> ''/upload/async-file''" by simp
  note t = C5_failed_cell_absent[OF a fl p af, of "''1KB''" "[]"]
  note u = C5_failed_cell_absent[OF a' fl' p' af', of "''1KB''" "[]"]
  note every = t[THEN conjunct2, THEN conjunct2, THEN conjunct2, THEN conjunct2, THEN conjunct2,
                 THEN conjunct2, THEN conjunct1]
  have s: "map_of (results (fst (run_size example_bench (''1KB'', example_file))))
                 (endpoint_name_of ''/upload/async-stream'')
            = cell_of (endpoint_name_of ''/upload/async-stream'')
                 (trial example_bench example_file ''/upload/async-stream'')"
    by (rule every[THEN bspec, OF c, THEN mp, OF ne])
  note key = t[THEN conjunct2, THEN conjunct1]
  note key' = u[THEN conjunct2, THEN conjunct1]
  note line = t[THEN conjunct2, THEN conjunct2, THEN conjunct2, THEN conjunct2, THEN conjunct1]
  note line' = u[THEN conjunct2, THEN conjunct2, THEN conjunct2, THEN conjunct2, THEN conjunct1]
  note names = t[THEN conjunct2, THEN conjunct2, THEN conjunct2, THEN conjunct2, THEN conjunct2,
                 THEN conjunct1]
  from key have r1: "map_of (results (fst (run_size example_bench (''1KB'', example_file)))) ''async-file'' = None"
    by (simp only: n)
  from line have r2: "Cross ''HTTP 500'' \<in> set (snd (run_size example_bench (''1KB'', example_file)))"
    by (simp only: l)
  from key' have r1': "map_of (results (fst (run_size example_bench (''1KB'', example_file)))) ''sync-uploadfile'' = None"
    by (simp only: n)
  from line' have r2': "CrossError TimeoutException \<in> set (snd (run_size example_bench (''1KB'', example_file)))"
    by (simp only: l)
  from names have r3: "tried (snd (run_size example_bench (''1KB'', example_file)))
        = [''sync-file'', ''async-file'', ''sync-uploadfile'', ''async-uploadfile'', ''async-stream'']"
    by (simp only: endpoint_names)
  from s have r4: "map_of (results (fst (run_size example_bench (''1KB'', example_file)))) ''async-stream''
        = Some (expected_metrics ''async-stream'' example_metrics_body 5 0 1)"
    by (simp only: n example_trial_async_stream cell_of.simps)
  show ?thesis by (intro conjI) (fact a a' fl p p' af af' r1 r2 r1' r2' r3 r4)+
qed

subsection \<open>The request of a trial\<close>

lemma take_length_eq: "take (length needle) hay = needle \<longleftrightarrow> (\<exists>suf. hay = needle @ suf)"
proof
  assume "take (length needle) hay = needle"
  then have "hay = needle @ drop (length needle) hay" by (metis append_take_drop_id)
  then show "\<exists>suf. hay = needle @ suf" ..
next
  assume "\<exists>suf. hay = needle @ suf"
  then show "take (length needle) hay = needle" by auto
qed

lemma str_in_substring: "str_in needle hay \<longleftrightarrow> (\<exists>pre suf. hay = pre @ needle @ suf)"
proof (induction hay)
  case Nil
  then show ?case by auto
next
  case (Cons c cs)
  show ?case
  proof
    assume "str_in needle (c # cs)"
    then consider "take (length needle) (c # cs) = needle" | "str_in needle cs" by auto
    then show "\<exists>pre suf. c # cs = pre @ needle @ suf"
    proof cases
      case 1
      then obtain suf where "c # cs = needle @ suf" using take_length_eq by blast
      then have "c # cs = [] @ needle @ suf" by simp
      then show ?thesis by blast
    next
      case 2
      then obtain pre suf where "cs = pre @ needle @ suf" using Cons.IH by blast
      then have "c # cs = (c # pre) @ needle @ suf" by simp
      then show ?thesis by blast
    qed
  next
    assume "\<exists>pre suf. c # cs = pre @ needle @ suf"
    then obtain pre suf where eq: "c # cs = pre @ needle @ suf" by blast
    show "str_in needle (c # cs)"
    proof (cases pre)
      case Nil
      with eq have "take (length needle) (c # cs) = needle" using take_length_eq[of needle "c # cs"] by auto
      then show ?thesis by simp
    next
      case (Cons p ps)
      with eq have "cs = ps @ needle @ suf" by simp
      then have "str_in needle cs" using Cons.IH by blast
      then show ?thesis by simp
    qed
  qed
qed

lemma upload_file_only_request:
  "files env fp = Some on_disk \<Longrightarrow>
   upload_file env endp fp =
   upload_file (env\<lparr>post := (\<lambda>r. if r = upload_request endp fp on_disk then post env r
                                   else Inl TransportError)\<rparr>) endp fp"
  by (simp add: upload_file_def Let_def split: sum.splits)

lemma upload_request_described:
  "upload_request endp fp on_disk =
     (if (\<exists>pre suf. endp = pre @ ''stream'' @ suf)
      then \<lparr>url = BASE_URL @ endp, payload = Content on_disk\<rparr>
      else \<lparr>url = BASE_URL @ endp,
            payload = Files [(''file'', (path_name fp, OpenFile fp, ''application/octet-stream''))]\<rparr>)"
  using str_in_substring[of "''stream''" endp] by (simp add: upload_request_def Let_def)

text \<open>
  C10. A trial reads the whole test file and issues one request. When the endpoint's path
  contains \<open>stream\<close>, that request carries the file's content as an in-memory bytes object
  in its raw body; otherwise it carries the open file object as the single form field
  \<open>file\<close>. The trial's result is the network's answer to exactly this request: its
  exception is raised, its status other than 200 becomes the error result, its 200 with a
  valid body and headers becomes the merged result, and what the network would answer to
  any other request changes nothing.
\<close>

theorem C10_request_encoding:
  assumes "files env fp = Some on_disk"
    and "request =
     (if (\<exists>pre suf. endp = pre @ ''stream'' @ suf)
      then \<lparr>url = BASE_URL @ endp, payload = Content on_disk\<rparr>
      else \<lparr>url = BASE_URL @ endp,
            payload = Files [(''file'', (path_name fp, OpenFile fp, ''application/octet-stream''))]\<rparr>)"
  shows "(post env request = Inl e \<longrightarrow> upload_file env endp fp = Inl e)
    \<and> (post env request = Inr response \<and> status_code response \<noteq> 200 \<longrightarrow>
          upload_file env endp fp =
            Inr (ErrorResult (''HTTP '' @ str_int (status_code response))
                   (clock_after env - clock_before env)))
    \<and> (post env request = Inr response \<and> status_code response = 200
          \<and> ServerResponse_of_json (body response) = Some sr
          \<and> headers response ''X-Total-Duration'' = Some (FloatText td)
          \<and> headers response ''X-Total-Memory-Delta'' = Some (FloatText tm) \<longrightarrow>
          upload_file env endp fp = Inr (OkResult sr (clock_after env - clock_before env) td tm))
    \<and> upload_file env endp fp =
          upload_file (env\<lparr>post := (\<lambda>r. if r = request then post env r else Inl TransportError)\<rparr>)
            endp fp
    \<and> upload_request endp fp on_disk = request"
proof -
  have req: "upload_request endp fp on_disk = request"
    unfolding assms(2) by (rule upload_request_described)
  have a: "post env request = Inl e \<longrightarrow> upload_file env endp fp = Inl e"
    using upload_file_raises[OF assms(1), of endp e] by (simp add: req)
  have b: "post env request = Inr response \<and> status_code response \<noteq> 200 \<longrightarrow>
          upload_file env endp fp =
            Inr (ErrorResult (''HTTP '' @ str_int (status_code response))
                   (clock_after env - clock_before env))"
    using upload_file_non200[OF assms(1), of endp response] by (simp add: req)
  have c: "post env request = Inr response \<and> status_code response = 200
          \<and> ServerResponse_of_json (body response) = Some sr
          \<and> headers response ''X-Total-Duration'' = Some (FloatText td)
          \<and> headers response ''X-Total-Memory-Delta'' = Some (FloatText tm) \<longrightarrow>
          upload_file env endp fp = Inr (OkResult sr (clock_after env - clock_before env) td tm)"
    using upload_file_200[OF assms(1), of endp response sr td tm] by (simp add: req)
  have d: "upload_file env endp fp =
          upload_file (env\<lparr>post := (\<lambda>r. if r = request then post env r else Inl TransportError)\<rparr>)
            endp fp"
    using upload_file_only_request[OF assms(1), of endp] by (simp only: req)
  show ?thesis by (intro conjI) (fact a b c d req)+
qed

theorem C10_request_encoding_witness:
  "files example_strict_env example_file = Some (replicate 1024 (CHR ''x''))
   \<and> (\<exists>pre suf. ''/upload/async-stream'' = pre @ ''stream'' @ suf)
   \<and> post example_strict_env
        \<lparr>url = ''http://localhost:8000/upload/async-stream'',
         payload = Content (replicate 1024 (CHR ''x''))\<rparr>
       = Inr \<lparr>status_code = 503, body = JNull, headers = Map.empty\<rparr>
   \<and> upload_file example_strict_env ''/upload/async-stream'' example_file
       = Inr (ErrorResult ''HTTP 503'' 5)
   \<and> \<not> (\<exists>pre suf. ''/upload/sync-uploadfile'' = pre @ ''stream'' @ suf)
   \<and> post example_strict_env
        \<lparr>url = ''http://localhost:8000/upload/sync-uploadfile'',
         payload = Files [(''file'', (''test_1KB.bin'', OpenFile ''test_files/test_1KB.bin'',
                                      ''application/octet-stream''))]\<rparr>
       = Inl TimeoutException
   \<and> upload_file example_strict_env ''/upload/sync-uploadfile'' example_file = Inl TimeoutException"
proof -
  let ?raw = "\<lparr>url = ''http://localhost:8000/upload/async-stream'',
               payload = Content (replicate 1024 (CHR ''x''))\<rparr>"
  let ?form = "\<lparr>url = ''http://localhost:8000/upload/sync-uploadfile'',
         payload = Files [(''file'', (''test_1KB.bin'', OpenFile ''test_files/test_1KB.bin'',
                                      ''application/octet-stream''))]\<rparr>"
  have f: "files example_strict_env example_file = Some (replicate 1024 (CHR ''x''))"
    by (simp add: example_strict_env_def)
  have a: "\<exists>pre suf. ''/upload/async-stream'' = pre @ ''stream'' @ suf"
    using str_in_substring[of "''stream''" "''/upload/async-stream''"] by simp
  have b: "\<not> (\<exists>pre suf. ''/upload/sync-uploadfile'' = pre @ ''stream'' @ suf)"
    using str_in_substring[of "''stream''" "''/upload/sync-uploadfile''"] by simp
  have q1: "?raw = (if (\<exists>pre suf. ''/upload/async-stream'' = pre @ ''stream'' @ suf)
      then \<lparr>url = BASE_URL @ ''/upload/async-stream'', payload = Content (replicate 1024 (CHR ''x''))\<rparr>
      else \<lparr>url = BASE_URL @ ''/upload/async-stream'',
            payload = Files [(''file'', (path_name example_file, OpenFile example_file,
                                         ''application/octet-stream''))]\<rparr>)"
    using a by (simp add: BASE_URL_def)
  have q2: "?form = (if (\<exists>pre suf. ''/upload/sync-uploadfile'' = pre @ ''stream'' @ suf)
      then \<lparr>url = BASE_URL @ ''/upload/sync-uploadfile'', payload = Content (replicate 1024 (CHR ''x''))\<rparr>
      else \<lparr>url = BASE_URL @ ''/upload/sync-uploadfile'',
            payload = Files [(''file'', (path_name example_file, OpenFile example_file,
                                         ''application/octet-stream''))]\<rparr>)"
    using b by (simp add: BASE_URL_def path_name_def example_file_def)
  have p1: "post example_strict_env ?raw = Inr \<lparr>status_code = 503, body = JNull, headers = Map.empty\<rparr>"
    by (simp add: example_strict_env_def example_strict_server_def)
  have p2: "post example_strict_env ?form = Inl TimeoutException"
    by (simp add: example_strict_env_def example_strict_server_def)
  have s503: "str_int 503 = ''503''"
    by (simp add: str_int_def str_nat.simps digit_char_def)
  have clk: "clock_after example_strict_env - clock_before example_strict_env = 5"
    by (simp add: example_strict_env_def)
  note s = C10_request_encoding[OF f q1, of _ "\<lparr>status_code = 503, body = JNull, headers = Map.empty\<rparr>"]
  note u = C10_request_encoding[OF f q2, of TimeoutException]
  have r1: "upload_file example_strict_env ''/upload/async-stream'' example_file
       = Inr (ErrorResult ''HTTP 503'' 5)"
    using s[THEN conjunct2, THEN conjunct1] p1 by (simp add: s503 clk)
  have r2: "upload_file example_strict_env ''/upload/sync-uploadfile'' example_file = Inl TimeoutException"
    using u[THEN conjunct1] p2 by simp
  show ?thesis by (intro conjI) (fact f a b p1 p2 r1 r2)+
qed

subsection \<open>Missing and malformed headers\<close>

text \<open>
  C9, as stated, fails for a malformed value: a 200 response whose \<open>X-Total-Duration\<close>
  is not the text of a float makes \<open>upload_file\<close> raise \<open>ValueError\<close>, and the orchestrator
  records nothing for that cell.
\<close>

theorem C9_counterexample:
  "(\<exists>response. post example_client_env (upload_request ''/upload/async-uploadfile'' example_file
                     (replicate 1024 (CHR ''x''))) = Inr response
       \<and> status_code response = 200
       \<and> ServerResponse_of_json (body response) = Some example_metrics_body
       \<and> headers response ''X-Total-Duration'' = Some NonNumericText)
   \<and> upload_file example_client_env ''/upload/async-uploadfile'' example_file = Inl ValueError
   \<and> run_endpoint example_bench example_file ''/upload/async-uploadfile'' ([], [])
        = ([], [Trying ''async-uploadfile'', CrossError ValueError])"
proof -
  have "upload_file example_client_env ''/upload/async-uploadfile'' example_file = Inl ValueError"
    using example_trial_async_uploadfile by (simp add: trial_def example_bench_def)
  moreover have "run_endpoint example_bench example_file ''/upload/async-uploadfile'' ([], [])
        = ([], [Trying ''async-uploadfile'', CrossError ValueError])"
    by (simp add: run_endpoint_step example_trial_async_uploadfile endpoint_name_of_def str_replace.simps)
  moreover have "\<exists>response. post example_client_env (upload_request ''/upload/async-uploadfile'' example_file
                     (replicate 1024 (CHR ''x''))) = Inr response
       \<and> status_code response = 200
       \<and> ServerResponse_of_json (body response) = Some example_metrics_body
       \<and> headers response ''X-Total-Duration'' = Some NonNumericText"
    by (simp add: example_client_env_def example_server_def example_malformed_response_def
        upload_request_def BASE_URL_def ServerResponse_roundtrip)
  ultimately show ?thesis by (intro conjI)
qed

text \<open>
  C9, amended. On a 200 trial whose body validates: when neither header is malformed, a
  missing header counts as zero, the trial succeeds and the merged metrics are recorded;
  when either header is malformed, \<open>float()\<close> raises \<open>ValueError\<close>, the orchestrator
  catches it, prints the diagnostic and records no entry for the cell. Neither case aborts
  the run.
\<close>

theorem C9_header_defaults:
  assumes "files (trial_env benv endp fp) fp = Some on_disk"
    and "post (trial_env benv endp fp) (upload_request endp fp on_disk) = Inr response"
    and "status_code response = 200"
    and "ServerResponse_of_json (body response) = Some sr"
  shows "(headers response ''X-Total-Duration'' \<noteq> Some NonNumericText
          \<and> headers response ''X-Total-Memory-Delta'' \<noteq> Some NonNumericText \<longrightarrow>
            trial benv fp endp =
              Inr (OkResult sr (clock_after (trial_env benv endp fp) - clock_before (trial_env benv endp fp))
                     (value_or_zero (headers response ''X-Total-Duration''))
                     (value_or_zero (headers response ''X-Total-Memory-Delta'')))
            \<and> fst (run_endpoint benv fp endp (rs, out)) =
                AList.update (endpoint_name_of endp)
                  (expected_metrics (endpoint_name_of endp) sr
                     (clock_after (trial_env benv endp fp) - clock_before (trial_env benv endp fp))
                     (value_or_zero (headers response ''X-Total-Duration''))
                     (value_or_zero (headers response ''X-Total-Memory-Delta''))) rs)
         \<and> (headers response ''X-Total-Duration'' = Some NonNumericText
            \<or> headers response ''X-Total-Memory-Delta'' = Some NonNumericText \<longrightarrow>
            trial benv fp endp = Inl ValueError
            \<and> run_endpoint benv fp endp (rs, out) =
                (rs, out @ [Trying (endpoint_name_of endp), CrossError ValueError]))"
proof -
  have hf: "\<And>name. header_float (headers response) name =
      (if headers response name = Some NonNumericText then Inl ValueError
       else Inr (value_or_zero (headers response name)))"
    by (simp add: header_float_def value_or_zero_def split: option.splits header_text.splits)
  have t: "trial benv fp endp =
      (case header_float (headers response) ''X-Total-Duration'' of
         Inl e \<Rightarrow> Inl e
       | Inr total_duration \<Rightarrow>
          (case header_float (headers response) ''X-Total-Memory-Delta'' of
             Inl e \<Rightarrow> Inl e
           | Inr total_memory_delta \<Rightarrow>
               Inr (OkResult sr (clock_after (trial_env benv endp fp) - clock_before (trial_env benv endp fp))
                      total_duration total_memory_delta)))"
    using assms by (simp add: trial_def upload_file_def Let_def)
  show ?thesis
    by (simp add: run_endpoint_step t hf)
qed


theorem C9_header_defaults_witness:
  "files (trial_env example_bench ''/upload/async-stream'' example_file) example_file
      = Some (replicate 1024 (CHR ''x''))
   \<and> post (trial_env example_bench ''/upload/async-stream'' example_file)
        (upload_request ''/upload/async-stream'' example_file (replicate 1024 (CHR ''x'')))
      = Inr example_degraded_response
   \<and> status_code example_degraded_response = 200
   \<and> ServerResponse_of_json (body example_degraded_response) = Some example_metrics_body
   \<and> headers example_degraded_response ''X-Total-Duration'' = None
   \<and> trial example_bench example_file ''/upload/async-stream''
      = Inr (OkResult example_metrics_body 5 0 1)
   \<and> fst (run_endpoint example_bench example_file ''/upload/async-stream'' ([], []))
      = [(''async-stream'', expected_metrics ''async-stream'' example_metrics_body 5 0 1)]"
proof -
  let ?env = "trial_env example_bench ''/upload/async-stream'' example_file"
  have a: "files ?env example_file = Some (replicate 1024 (CHR ''x''))"
    by (simp add: example_bench_def example_client_env_def)
  have b: "post ?env (upload_request ''/upload/async-stream'' example_file (replicate 1024 (CHR ''x'')))
             = Inr example_degraded_response"
    by (simp add: example_bench_def example_client_env_def example_server_def upload_request_def
        BASE_URL_def)
  have c: "status_code example_degraded_response = 200"
    by (simp add: example_degraded_response_def)
  have d: "ServerResponse_of_json (body example_degraded_response) = Some example_metrics_body"
    by (simp add: example_degraded_response_def ServerResponse_roundtrip)
  have e: "headers example_degraded_response ''X-Total-Duration'' = None"
    by (simp add: example_degraded_response_def)
  have f: "headers example_degraded_response ''X-Total-Duration'' \<noteq> Some NonNumericText
           \<and> headers example_degraded_response ''X-Total-Memory-Delta'' \<noteq> Some NonNumericText"
    by (simp add: example_degraded_response_def)
  have v: "value_or_zero (headers example_degraded_response ''X-Total-Duration'') = 0"
    "value_or_zero (headers example_degraded_response ''X-Total-Memory-Delta'') = 1"
    "clock_after ?env - clock_before ?env = 5"
    "endpoint_name_of ''/upload/async-stream'' = ''async-stream''"
    by (simp_all add: value_or_zero_def example_degraded_response_def example_bench_def
        example_client_env_def endpoint_name_of_def str_replace.simps)
  note t = C9_header_defaults[OF a b c d, of "[]" "[]", THEN conjunct1, THEN mp, OF f]
  from t[THEN conjunct1] have r1: "trial example_bench example_file ''/upload/async-stream''
      = Inr (OkResult example_metrics_body 5 0 1)"
    by (simp only: v)
  from t[THEN conjunct2] have r2:
    "fst (run_endpoint example_bench example_file ''/upload/async-stream'' ([], []))
      = [(''async-stream'', expected_metrics ''async-stream'' example_metrics_body 5 0 1)]"
    by (simp only: v AList.update.simps)
  show ?thesis by (intro conjI) (fact a b c d e r1 r2)+
qed

subsection \<open>The history store\<close>

lemma example_runs_ok: "run_ok example_run" "run_ok example_later_run"
  by (simp_all add: run_ok_def test_ok_def dict_ok_def example_run_def example_later_run_def)

lemma keys_cells:
  "map fst (List.map_filter (\<lambda>e. map_option (Pair (name e)) (cell e)) es)
     = map name (filter (\<lambda>e. cell e \<noteq> None) es)"
proof (induction es)
  case Nil
  then show ?case by (simp add: List.map_filter_simps)
next
  case (Cons a es)
  then show ?case by (cases "cell a") (simp_all add: List.map_filter_simps)
qed

lemma run_size_ok: "test_ok (fst (run_size benv item))"
proof (cases item)
  case (Pair size_name fp)
  have "distinct (map endpoint_name_of ENDPOINTS)" by (simp add: endpoint_names)
  then have "distinct (map endpoint_name_of
      (filter (\<lambda>e. cell_of (endpoint_name_of e) (trial benv fp e) \<noteq> None) ENDPOINTS))"
    by (rule distinct_map_filter)
  then show ?thesis
    by (simp add: Pair run_size_eq test_ok_def dict_ok_def keys_cells)
qed

lemma run_matrix_ok: "run_ok (fst (run_matrix benv sizes))"
  by (simp add: run_matrix_def run_ok_def Let_def list_all_iff run_size_ok dict_ok_def)

lemma save_results_append:
  "list_all run_ok rs \<Longrightarrow>
   save_results (Some (BenchmarkHistory_to_json \<lparr>runs = rs\<rparr>)) r =
     Inr (Some (BenchmarkHistory_to_json \<lparr>runs = rs @ [r]\<rparr>))"
  by (simp add: save_results_def add_run_def history_roundtrip)

lemma save_all_append:
  "list_all run_ok done \<Longrightarrow> list_all run_ok rs \<Longrightarrow>
   save_all (Some (BenchmarkHistory_to_json \<lparr>runs = done\<rparr>)) rs =
     Inr (Some (BenchmarkHistory_to_json \<lparr>runs = done @ rs\<rparr>))"
proof (induction rs arbitrary: "done")
  case Nil
  then show ?case by simp
next
  case (Cons r rs)
  from Cons.prems have "list_all run_ok (done @ [r])" "list_all run_ok rs" by simp_all
  then have "save_all (Some (BenchmarkHistory_to_json \<lparr>runs = done @ [r]\<rparr>)) rs =
     Inr (Some (BenchmarkHistory_to_json \<lparr>runs = (done @ [r]) @ rs\<rparr>))"
    by (rule Cons.IH)
  then show ?case using Cons.prems(1) by (simp add: save_results_append)
qed

lemma save_all_fresh:
  "list_all run_ok rs \<Longrightarrow> rs \<noteq> [] \<Longrightarrow>
   save_all None rs = Inr (Some (BenchmarkHistory_to_json \<lparr>runs = rs\<rparr>))"
proof (cases rs)
  case Nil
  assume "rs \<noteq> []" with Nil show ?thesis by simp
next
  case (Cons r rest)
  assume "list_all run_ok rs"
  with Cons have "list_all run_ok [r]" "list_all run_ok rest" by simp_all
  then have "save_all (Some (BenchmarkHistory_to_json \<lparr>runs = [r]\<rparr>)) rest =
     Inr (Some (BenchmarkHistory_to_json \<lparr>runs = [r] @ rest\<rparr>))"
    by (rule save_all_append)
  then show ?thesis by (simp add: Cons save_results_fresh)
qed

text \<open>
  C6. Saving a run into a missing store is not an error and leaves a history of that one
  run; saving into a store that holds a history appends the run at the end and rewrites
  the whole history; after the N runs of a list have been saved on a fresh store, the
  store reads back as exactly those N runs in order, and loading and saving it again with
  nothing appended leaves the document as it is.
\<close>

theorem C6_history_store:
  assumes "list_all run_ok rs" and "rs \<noteq> []"
  shows "save_results None r = Inr (Some (BenchmarkHistory_to_json \<lparr>runs = [r]\<rparr>))
         \<and> save_results (Some (BenchmarkHistory_to_json \<lparr>runs = rs\<rparr>)) r =
             Inr (Some (BenchmarkHistory_to_json \<lparr>runs = rs @ [r]\<rparr>))
         \<and> (\<exists>doc. save_all None rs = Inr (Some doc)
               \<and> map_option runs (BenchmarkHistory_of_json doc) = Some rs
               \<and> map_option (length \<circ> runs) (BenchmarkHistory_of_json doc) = Some (length rs)
               \<and> reload_resave doc = Inr doc)"
proof -
  let ?doc = "BenchmarkHistory_to_json \<lparr>runs = rs\<rparr>"
  have load: "BenchmarkHistory_of_json ?doc = Some \<lparr>runs = rs\<rparr>"
    using assms(1) by (simp add: history_roundtrip)
  have "save_all None rs = Inr (Some ?doc)"
    using assms by (rule save_all_fresh)
  moreover have "reload_resave ?doc = Inr ?doc"
    by (simp add: reload_resave_def load)
  ultimately have "\<exists>doc. save_all None rs = Inr (Some doc)
               \<and> map_option runs (BenchmarkHistory_of_json doc) = Some rs
               \<and> map_option (length \<circ> runs) (BenchmarkHistory_of_json doc) = Some (length rs)
               \<and> reload_resave doc = Inr doc"
    using load by (intro exI[of _ ?doc]) simp
  then show ?thesis
    using assms(1) by (simp add: save_results_fresh save_results_append)
qed

theorem C6_history_store_witness:
  "list_all run_ok [example_run, example_later_run] \<and> [example_run, example_later_run] \<noteq> []
   \<and> (\<exists>doc. save_all None [example_run, example_later_run] = Inr (Some doc)
         \<and> map_option runs (BenchmarkHistory_of_json doc) = Some [example_run, example_later_run]
         \<and> map_option (length \<circ> runs) (BenchmarkHistory_of_json doc) = Some 2
         \<and> reload_resave doc = Inr doc)"
proof -
  have a: "list_all run_ok [example_run, example_later_run]" by (simp add: example_runs_ok)
  have b: "[example_run, example_later_run] \<noteq> []" by simp
  note t = C6_history_store[OF a b, of example_later_run]
  from t[THEN conjunct2, THEN conjunct2] obtain doc where
    d: "save_all None [example_run, example_later_run] = Inr (Some doc)"
       "map_option runs (BenchmarkHistory_of_json doc) = Some [example_run, example_later_run]"
       "map_option (length \<circ> runs) (BenchmarkHistory_of_json doc)
          = Some (length [example_run, example_later_run])"
       "reload_resave doc = Inr doc"
    by (elim exE conjE)
  have len: "length [example_run, example_later_run] = 2" by simp
  from d(3) have d3: "map_option (length \<circ> runs) (BenchmarkHistory_of_json doc) = Some 2"
    by (simp only: len)
  show ?thesis
    by (intro conjI exI[of _ doc]) (fact a b d(1) d(2) d3 d(4))+
qed



end
